theory Spec2Isabelle
  imports
    Complex_Main
    "HOL-Library.Multiset"
    "HOL-Library.Char_ord"
    "HOL-Library.List_Lexorder"
begin

section \<open>Gradebook and test-result statistics\<close>

text \<open>
  The three scripts of \<^verbatim>\<open>module_2\<close> compute descriptive statistics over small
  tables held in pandas data frames. This theory embeds the aggregation functions
  \<^verbatim>\<open>calculate_statistics\<close>, \<^verbatim>\<open>get_class_statistics\<close>, \<^verbatim>\<open>get_top_students\<close>,
  \<^verbatim>\<open>get_struggling_students\<close> (first script) and \<^verbatim>\<open>analyze_test_results\<close>
  (third script) and proves properties of them.

  Conventions of the embedding.
  \<^item> The source's string literals are Cyrillic. They are written here in Latin
    transliteration, one constant per literal, named after the transliteration.
  \<^item> A 64-bit float is idealised as a real number with exact arithmetic; \<open>None\<close>
    stands for NaN. Rounding to \<open>d\<close> decimals is numpy's: scale by \<open>10 ^ d\<close>, round
    half to even, scale back.
  \<^item> A data frame is the ordered list of its named columns. A column is either a
    column of strings or a column of floats.
  \<^item> A Python exception is a value of type \<open>error\<close>. \<open>NotModelled\<close> marks inputs
    whose treatment depends on the pandas version (arithmetic on string columns,
    rounding the mean of a series without values) and is not a promise that the source
    raises there.
  \<^item> The sorting routine of numpy is a parameter of the ranking queries. Its portable
    quicksort is embedded as one instance.
\<close>

subsection \<open>Literals of the source\<close>

definition Uchenik :: string where "Uchenik = ''Uchenik''"
definition Sredniy_ball :: string where "Sredniy_ball = ''Sredniy_ball''"
definition Status :: string where "Status = ''Status''"
definition Otlichnik :: string where "Otlichnik = ''Otlichnik''"
definition Horoshist :: string where "Horoshist = ''Horoshist''"
definition Troechnik :: string where "Troechnik = ''Troechnik''"
definition Trebuet_vnimaniya :: string where "Trebuet_vnimaniya = ''Trebuet vnimaniya''"
definition Zadanie_prefix :: string where "Zadanie_prefix = ''Zadanie_''"
definition Obshchiy_ball :: string where "Obshchiy_ball = ''Obshchiy_ball''"
definition Procent :: string where "Procent = ''Procent''"
definition Da :: string where "Da = ''Da''"
definition Net :: string where "Net = ''Net''"

lemmas literal_defs =
  Uchenik_def Sredniy_ball_def Status_def Otlichnik_def Horoshist_def Troechnik_def
  Trebuet_vnimaniya_def Zadanie_prefix_def Obshchiy_ball_def Procent_def Da_def Net_def

subsection \<open>Errors\<close>

datatype error = KeyError | IndexError | TypeError | NotModelled

definition ebind :: "error + 'a \<Rightarrow> ('a \<Rightarrow> error + 'b) \<Rightarrow> error + 'b" where
  "ebind m f = (case m of Inl e \<Rightarrow> Inl e | Inr x \<Rightarrow> f x)"

subsection \<open>Floats, NaN and rounding\<close>

type_synonym num = "real option"

text \<open>Comparisons of the source: every comparison with NaN is false.\<close>

definition num_ge :: "num \<Rightarrow> real \<Rightarrow> bool" where
  "num_ge x t = (case x of None \<Rightarrow> False | Some v \<Rightarrow> t \<le> v)"

definition num_lt :: "num \<Rightarrow> real \<Rightarrow> bool" where
  "num_lt x t = (case x of None \<Rightarrow> False | Some v \<Rightarrow> v < t)"

text \<open>Round half to even, the rounding of \<^verbatim>\<open>numpy.rint\<close>.\<close>

definition rint :: "real \<Rightarrow> int" where
  "rint x =
     (let f = \<lfloor>x\<rfloor>; r = x - of_int f
      in if r < 1 / 2 then f
         else if 1 / 2 < r then f + 1
         else if even f then f else f + 1)"

text \<open>\<^verbatim>\<open>x.round(d)\<close> of numpy and pandas.\<close>

definition round_dec :: "nat \<Rightarrow> real \<Rightarrow> real" where
  "round_dec d x = of_int (rint (x * 10 ^ d)) / 10 ^ d"

definition num_round :: "nat \<Rightarrow> num \<Rightarrow> num" where
  "num_round d x = map_option (round_dec d) x"

text \<open>
  \<^verbatim>\<open>series.mean().round(d)\<close> and \<^verbatim>\<open>series.median().round(d)\<close>: the rounding of the
  float that a reduction of a series returns. For a series without any value pandas
  returns NaN; whether that NaN is a numpy float, which has a \<^verbatim>\<open>round\<close> method, or a
  plain Python float, which has none, is not fixed by the source, and the model leaves
  the case open.
\<close>

definition scalar_round :: "nat \<Rightarrow> num \<Rightarrow> error + num" where
  "scalar_round d x =
     (case x of None \<Rightarrow> Inl NotModelled | Some v \<Rightarrow> Inr (Some (round_dec d v)))"

subsection \<open>Series reductions (NaN is skipped, as pandas does by default)\<close>

definition dropna :: "num list \<Rightarrow> real list" where
  "dropna xs = [v. Some v \<leftarrow> xs]"

definition nanmean :: "num list \<Rightarrow> num" where
  "nanmean xs =
     (let vs = dropna xs
      in if vs = [] then None else Some (sum_list vs / real (length vs)))"

definition nansum :: "num list \<Rightarrow> real" where
  "nansum xs = sum_list (dropna xs)"

definition nanmin :: "num list \<Rightarrow> num" where
  "nanmin xs = (case dropna xs of [] \<Rightarrow> None | v # vs \<Rightarrow> Some (fold min vs v))"

definition nanmax :: "num list \<Rightarrow> num" where
  "nanmax xs = (case dropna xs of [] \<Rightarrow> None | v # vs \<Rightarrow> Some (fold max vs v))"

definition nanmedian :: "num list \<Rightarrow> num" where
  "nanmedian xs =
     (let s = sort (dropna xs); n = length s
      in if n = 0 then None
         else if odd n then Some (s ! (n div 2))
         else Some ((s ! (n div 2 - 1) + s ! (n div 2)) / 2))"

text \<open>\<^verbatim>\<open>Series.std()\<close>: pandas' default is one delta degree of freedom.\<close>

definition nanstd :: "num list \<Rightarrow> num" where
  "nanstd xs =
     (let vs = dropna xs; n = length vs
      in if n \<le> 1 then None
         else let m = sum_list vs / real n
              in Some (sqrt (sum_list (map (\<lambda>v. (v - m)\<^sup>2) vs) / real (n - 1))))"

subsection \<open>Data frames\<close>

datatype column = StrCol "string list" | NumCol "num list"

type_synonym frame = "(string \<times> column) list"

fun col_len :: "column \<Rightarrow> nat" where
  "col_len (StrCol xs) = length xs"
| "col_len (NumCol xs) = length xs"

text \<open>\<^verbatim>\<open>len(df)\<close>: the number of rows.\<close>

definition frame_len :: "frame \<Rightarrow> nat" where
  "frame_len df = (case df of [] \<Rightarrow> 0 | (_, c) # _ \<Rightarrow> col_len c)"

text \<open>\<^verbatim>\<open>df.columns\<close>.\<close>

definition columns :: "frame \<Rightarrow> string list" where
  "columns df = map fst df"

text \<open>\<^verbatim>\<open>df[name]\<close>: a missing column raises \<^verbatim>\<open>KeyError\<close>.\<close>

definition getitem :: "frame \<Rightarrow> string \<Rightarrow> error + column" where
  "getitem df name = (case map_of df name of None \<Rightarrow> Inl KeyError | Some c \<Rightarrow> Inr c)"

text \<open>
  \<^verbatim>\<open>df[name] = c\<close>: an existing column of that name is overwritten in place, a new
  name is appended as the last column.
\<close>

fun setitem :: "frame \<Rightarrow> string \<Rightarrow> column \<Rightarrow> frame" where
  "setitem [] name c = [(name, c)]"
| "setitem ((k, v) # df) name c =
     (if k = name then (k, c) # df else (k, v) # setitem df name c)"

text \<open>Selecting rows by position, in the given order (\<^verbatim>\<open>take\<close> of pandas).\<close>

fun col_take :: "nat list \<Rightarrow> column \<Rightarrow> column" where
  "col_take idx (StrCol xs) = StrCol (map (\<lambda>i. xs ! i) idx)"
| "col_take idx (NumCol xs) = NumCol (map (\<lambda>i. xs ! i) idx)"

definition frame_take :: "nat list \<Rightarrow> frame \<Rightarrow> frame" where
  "frame_take idx df = map (\<lambda>(k, c). (k, col_take idx c)) df"

text \<open>A column read as floats; arithmetic on a column of strings is a type error.\<close>

fun as_numeric :: "column \<Rightarrow> error + num list" where
  "as_numeric (NumCol xs) = Inr xs"
| "as_numeric (StrCol xs) = Inl TypeError"

text \<open>
  \<^verbatim>\<open>df[names]\<close> followed by a row-wise reduction needs every selected column to be
  numeric; what pandas does with a string column among them depends on its version.
\<close>

fun numeric_columns :: "frame \<Rightarrow> string list \<Rightarrow> error + num list list" where
  "numeric_columns df [] = Inr []"
| "numeric_columns df (name # names) =
     ebind (getitem df name) (\<lambda>c.
       case c of
         StrCol _ \<Rightarrow> Inl NotModelled
       | NumCol xs \<Rightarrow> ebind (numeric_columns df names) (\<lambda>xss. Inr (xs # xss)))"

text \<open>\<^verbatim>\<open>.mean(axis=1)\<close> over the selected columns of a frame with \<open>n\<close> rows.\<close>

definition mean_axis1 :: "nat \<Rightarrow> num list list \<Rightarrow> num list" where
  "mean_axis1 n xss = map (\<lambda>i. nanmean (map (\<lambda>xs. xs ! i) xss)) [0..<n]"

text \<open>\<^verbatim>\<open>.sum(axis=1)\<close>: NaN counts as zero.\<close>

definition sum_axis1 :: "nat \<Rightarrow> num list list \<Rightarrow> num list" where
  "sum_axis1 n xss = map (\<lambda>i. Some (nansum (map (\<lambda>xs. xs ! i) xss))) [0..<n]"

subsection \<open>First script: the journal\<close>

text \<open>The inner function \<^verbatim>\<open>get_status\<close> of \<^verbatim>\<open>calculate_statistics\<close>.\<close>

definition get_status :: "num \<Rightarrow> string" where
  "get_status avg =
     (if num_ge avg 4.5 then Otlichnik
      else if num_ge avg 3.5 then Horoshist
      else if num_ge avg 2.5 then Troechnik
      else Trebuet_vnimaniya)"

text \<open>
  \<^verbatim>\<open>series.apply(get_status)\<close>. On a column of strings the comparison of a string
  with a float raises \<^verbatim>\<open>TypeError\<close>.
\<close>

fun apply_get_status :: "column \<Rightarrow> error + column" where
  "apply_get_status (NumCol xs) = Inr (StrCol (map get_status xs))"
| "apply_get_status (StrCol xs) = (if xs = [] then Inr (StrCol []) else Inl TypeError)"

text \<open>
  \<^verbatim>\<open>calculate_statistics(df)\<close>. The frame is changed in place and returned: the
  first component of the result is the caller's table after the call.
\<close>

definition calculate_statistics ::
    "frame option \<Rightarrow> error + (frame option \<times> string list option)" where
  "calculate_statistics df_opt =
     (case df_opt of
        None \<Rightarrow> Inr (None, None)
      | Some df \<Rightarrow>
          (let subject_columns = filter (\<lambda>col. col \<noteq> Uchenik) (columns df)
           in ebind (numeric_columns df subject_columns) (\<lambda>xss.
                let df1 = setitem df Sredniy_ball
                            (NumCol (map (num_round 2) (mean_axis1 (frame_len df) xss)))
                in ebind (getitem df1 Sredniy_ball) (\<lambda>avg.
                     ebind (apply_get_status avg) (\<lambda>st.
                       Inr (Some (setitem df1 Status st), Some subject_columns))))))"

subsection \<open>First script: class statistics\<close>

text \<open>The dictionary \<^verbatim>\<open>stats\<close> and one entry of the dictionary \<^verbatim>\<open>subject_stats\<close>.\<close>

record class_stats =
  total_students :: nat
  class_average :: num
  class_median :: num
  class_std :: num
  class_min :: num
  class_max :: num
  excellent :: nat
  good :: nat
  satisfactory :: nat
  attention_needed :: nat

record subject_stat =
  subj_mean :: num
  subj_min :: num
  subj_max :: num

text \<open>\<^verbatim>\<open>len(df[df[name] == s])\<close> for a string \<open>s\<close>: a float never equals a string.\<close>

fun count_eq :: "column \<Rightarrow> string \<Rightarrow> nat" where
  "count_eq (StrCol xs) s = length (filter (\<lambda>x. x = s) xs)"
| "count_eq (NumCol xs) s = 0"

text \<open>The loop over \<^verbatim>\<open>subject_columns\<close>; the dictionary keeps insertion order.\<close>

fun subject_stats_loop :: "frame \<Rightarrow> string list \<Rightarrow> error + (string \<times> subject_stat) list" where
  "subject_stats_loop df [] = Inr []"
| "subject_stats_loop df (subject # rest) =
     ebind (getitem df subject) (\<lambda>c.
     ebind (as_numeric c) (\<lambda>xs.
     ebind (scalar_round 2 (nanmean xs)) (\<lambda>m.
     ebind (subject_stats_loop df rest) (\<lambda>ss.
       Inr ((subject, \<lparr>subj_mean = m, subj_min = nanmin xs, subj_max = nanmax xs\<rparr>) # ss)))))"

text \<open>
  \<^verbatim>\<open>get_class_statistics(df, subject_columns)\<close>. The entries of the dictionary are
  computed in the order of the source. The standard deviation of a single value is a
  numpy NaN, which rounds to NaN.
\<close>

definition get_class_statistics ::
    "frame option \<Rightarrow> string list \<Rightarrow> error + (class_stats \<times> (string \<times> subject_stat) list) option"
  where
  "get_class_statistics df_opt subject_columns =
     (case df_opt of
        None \<Rightarrow> Inr None
      | Some df \<Rightarrow>
          ebind (getitem df Sredniy_ball) (\<lambda>avg_col.
          ebind (as_numeric avg_col) (\<lambda>avg.
          ebind (scalar_round 2 (nanmean avg)) (\<lambda>average.
          ebind (scalar_round 2 (nanmedian avg)) (\<lambda>median.
          ebind (getitem df Status) (\<lambda>st.
          ebind (subject_stats_loop df subject_columns) (\<lambda>subject_stats.
            Inr (Some
              (\<lparr>total_students = frame_len df,
                class_average = average,
                class_median = median,
                class_std = num_round 2 (nanstd avg),
                class_min = nanmin avg,
                class_max = nanmax avg,
                excellent = count_eq st Otlichnik,
                good = count_eq st Horoshist,
                satisfactory = count_eq st Troechnik,
                attention_needed = count_eq st Trebuet_vnimaniya\<rparr>,
               subject_stats)))))))))"

subsection \<open>First script: ranking queries\<close>

text \<open>
  \<^verbatim>\<open>sort_values\<close> is called without \<^verbatim>\<open>kind\<close>, so pandas sorts with numpy's
  \<^verbatim>\<open>quicksort\<close>, which its documentation does not list among the stable kinds. The
  index sort of numpy is therefore a parameter \<open>argsort\<close> of the model; what is known of
  it is that it returns the positions of its argument in an ascending order of the
  values.
\<close>

definition sorts_positions :: "(real list \<Rightarrow> nat list) \<Rightarrow> real list \<Rightarrow> bool" where
  "sorts_positions argsort xs \<longleftrightarrow>
     mset (argsort xs) = mset [0..<length xs] \<and> sorted (map (\<lambda>j. xs ! j) (argsort xs))"

definition argsort_ok :: "(real list \<Rightarrow> nat list) \<Rightarrow> bool" where
  "argsort_ok argsort \<longleftrightarrow> (\<forall>xs. sorts_positions argsort xs)"

text \<open>An index sort that keeps equal values in their order.\<close>

definition stable_argsort :: "real list \<Rightarrow> nat list" where
  "stable_argsort xs = sort_key (\<lambda>j. xs ! j) [0..<length xs]"

text \<open>
  The index sort that numpy runs for \<^verbatim>\<open>kind='quicksort'\<close> on floats when no
  vectorised routine is dispatched: \<^verbatim>\<open>aquicksort\<close> of \<^verbatim>\<open>npysort/quicksort.cpp\<close>. It
  permutes the array \<^verbatim>\<open>tosort\<close> of positions and never moves the values \<^verbatim>\<open>v\<close>. The
  pointers \<^verbatim>\<open>pl\<close>, \<^verbatim>\<open>pr\<close>, \<^verbatim>\<open>pm\<close>, \<^verbatim>\<open>pi\<close>, \<^verbatim>\<open>pj\<close>, \<^verbatim>\<open>pk\<close> of the C code are offsets
  into \<^verbatim>\<open>tosort\<close> here. NaN has been removed by pandas before the call, so the
  comparison of the C code is \<open><\<close> on the values.
\<close>

definition INTP_SWAP :: "nat list \<Rightarrow> nat \<Rightarrow> nat \<Rightarrow> nat list" where
  "INTP_SWAP tosort a b = tosort[a := tosort ! b, b := tosort ! a]"

text \<open>The three conditional swaps that put the median of three at \<^verbatim>\<open>pm\<close>.\<close>

definition median3 :: "real list \<Rightarrow> nat list \<Rightarrow> nat \<Rightarrow> nat \<Rightarrow> nat \<Rightarrow> nat list" where
  "median3 v t pl pm pr =
     (let t1 = (if v ! (t ! pm) < v ! (t ! pl) then INTP_SWAP t pm pl else t);
          t2 = (if v ! (t1 ! pr) < v ! (t1 ! pm) then INTP_SWAP t1 pr pm else t1)
      in if v ! (t2 ! pm) < v ! (t2 ! pl) then INTP_SWAP t2 pm pl else t2)"

text \<open>
  \<^verbatim>\<open>do { ++pi; } while (v[*pi] < vp)\<close> and \<^verbatim>\<open>do { --pj; } while (vp < v[*pj])\<close>. In
  the C code the pivot and the median-of-three ends stop both scans inside the
  partition; the bounds tested here only make the recursion total.
\<close>

function scan_up :: "real list \<Rightarrow> nat list \<Rightarrow> real \<Rightarrow> nat \<Rightarrow> nat" where
  "scan_up v t vp i =
     (if Suc i < length t \<and> v ! (t ! Suc i) < vp then scan_up v t vp (Suc i) else Suc i)"
  by pat_completeness auto
termination by (relation "measure (\<lambda>(v, t, vp, i). length t - i)") auto

function scan_down :: "real list \<Rightarrow> nat list \<Rightarrow> real \<Rightarrow> nat \<Rightarrow> nat" where
  "scan_down v t vp j =
     (if 1 < j \<and> vp < v ! (t ! (j - 1)) then scan_down v t vp (j - 1) else j - 1)"
  by pat_completeness auto
termination by (relation "measure (\<lambda>(v, t, vp, j). j)") auto

declare scan_up.simps [simp del] scan_down.simps [simp del]

text \<open>
  The partition loop \<^verbatim>\<open>for (;;) { ...; if (pi >= pj) break; INTP_SWAP(*pi, *pj); }\<close>.
  It returns the permuted positions and the final \<^verbatim>\<open>pi\<close>.
\<close>

function partition_loop ::
    "real list \<Rightarrow> nat list \<Rightarrow> real \<Rightarrow> nat \<Rightarrow> nat \<Rightarrow> nat list \<times> nat" where
  "partition_loop v t vp i j =
     (let i' = scan_up v t vp i; j' = scan_down v t vp j
      in if j' \<le> i' then (t, i') else partition_loop v (INTP_SWAP t i' j') vp i' j')"
  by pat_completeness auto
termination
proof (relation "measure (\<lambda>(v, t, vp, i, j). j - i)", goal_cases)
  case 1
  then show ?case by simp
next
  case (2 v t vp i j i' j')
  have up: "i < scan_up v t vp i"
  proof (induction v t vp i rule: scan_up.induct)
    case (1 v t vp i)
    show ?case
    proof (cases "Suc i < length t \<and> v ! (t ! Suc i) < vp")
      case True
      then have "scan_up v t vp i = scan_up v t vp (Suc i)"
        by (simp add: scan_up.simps[of v t vp i])
      then show ?thesis using 1[OF True] by simp
    next
      case False
      then have "scan_up v t vp i = Suc i"
        by (auto simp: scan_up.simps[of v t vp i])
      then show ?thesis by simp
    qed
  qed
  have down: "scan_down v t vp j \<le> j"
  proof (induction v t vp j rule: scan_down.induct)
    case (1 v t vp j)
    show ?case
    proof (cases "1 < j \<and> vp < v ! (t ! (j - 1))")
      case True
      then have "scan_down v t vp j = scan_down v t vp (j - 1)"
        by (simp add: scan_down.simps[of v t vp j])
      then show ?thesis using 1[OF True] by simp
    next
      case False
      then have "scan_down v t vp j = j - 1"
        by (auto simp: scan_down.simps[of v t vp j])
      then show ?thesis by simp
    qed
  qed
  from 2 up down show ?case by simp
qed

text \<open>
  The insertion sort of a short partition: for \<^verbatim>\<open>pi\<close> from \<^verbatim>\<open>pl + 1\<close> to \<^verbatim>\<open>pr\<close>,
  the position at \<^verbatim>\<open>pi\<close> moves left past every position whose value is strictly greater.
\<close>

fun insertion_shift :: "real list \<Rightarrow> nat list \<Rightarrow> real \<Rightarrow> nat \<Rightarrow> nat \<Rightarrow> nat list \<times> nat" where
  "insertion_shift v t vp pl 0 = (t, 0)"
| "insertion_shift v t vp pl (Suc pk) =
     (if pl < Suc pk \<and> vp < v ! (t ! pk)
      then insertion_shift v (t[Suc pk := t ! pk]) vp pl pk
      else (t, Suc pk))"

fun insertion_sort_range :: "real list \<Rightarrow> nat list \<Rightarrow> nat \<Rightarrow> nat list \<Rightarrow> nat list" where
  "insertion_sort_range v t pl [] = t"
| "insertion_sort_range v t pl (i # rest) =
     (let vi = t ! i; vp = v ! vi;
          (t', j) = insertion_shift v t vp pl i
      in insertion_sort_range v (t'[j := vi]) pl rest)"

text \<open>
  The outer loop with its explicit stack. A partition of more than 17 positions is
  split around the median of three, the larger part is pushed with the remaining depth
  and the smaller part is continued; a partition of at most 17 positions is sorted by
  insertion and the next part is popped. The depth is tested only after a pop. When it
  is exhausted numpy sorts the part by heapsort; that routine is not modelled and the
  loop answers \<open>None\<close> there. The loop runs on fuel; every round either splits a partition
  or finishes one, so twice the number of positions and two more rounds are enough.
\<close>

primrec aquicksort_loop ::
    "nat \<Rightarrow> real list \<Rightarrow> nat list \<Rightarrow> nat \<Rightarrow> nat \<Rightarrow> int \<Rightarrow> bool \<Rightarrow> (nat \<times> nat \<times> int) list
       \<Rightarrow> nat list option" where
  "aquicksort_loop 0 v t pl pr cdepth popped stack = None"
| "aquicksort_loop (Suc fuel) v t pl pr cdepth popped stack =
     (if popped \<and> cdepth < 0 then None
      else if 16 + pl < pr then
        (let pm = pl + (pr - pl) div 2;
             t1 = median3 v t pl pm pr;
             vp = v ! (t1 ! pm);
             t2 = INTP_SWAP t1 pm (pr - 1);
             (t3, i) = partition_loop v t2 vp pl (pr - 1);
             t4 = INTP_SWAP t3 i (pr - 1)
         in if i - pl < pr - i
            then aquicksort_loop fuel v t4 pl (i - 1) (cdepth - 1) False
                   ((i + 1, pr, cdepth - 1) # stack)
            else aquicksort_loop fuel v t4 (i + 1) pr (cdepth - 1) False
                   ((pl, i - 1, cdepth - 1) # stack))
      else
        (let t1 = insertion_sort_range v t pl [pl + 1..<pr + 1]
         in case stack of
              [] \<Rightarrow> Some t1
            | (pl', pr', cdepth') # stack' \<Rightarrow>
                aquicksort_loop fuel v t1 pl' pr' cdepth' True stack'))"

text \<open>\<^verbatim>\<open>npy_get_msb\<close>: the position of the highest set bit.\<close>

fun npy_get_msb :: "nat \<Rightarrow> nat" where
  "npy_get_msb n = (if n < 2 then 0 else Suc (npy_get_msb (n div 2)))"

definition aquicksort :: "real list \<Rightarrow> nat list option" where
  "aquicksort v =
     (let num = length v
      in aquicksort_loop (2 * num + 2) v [0..<num] 0 (num - 1)
           (2 * int (npy_get_msb num)) True [])"

text \<open>
  \<^verbatim>\<open>values.argsort(kind='quicksort')\<close> as a function; the empty list stands for the
  unmodelled heapsort case.
\<close>

definition npy_argsort :: "real list \<Rightarrow> nat list" where
  "npy_argsort v = (case aquicksort v of None \<Rightarrow> [] | Some t \<Rightarrow> t)"

text \<open>
  The index sort of pandas: NaN goes last; for a descending sort the values are
  reversed, sorted ascending, and the result is reversed again.
\<close>

definition nargsort :: "(real list \<Rightarrow> nat list) \<Rightarrow> bool \<Rightarrow> num list \<Rightarrow> nat list" where
  "nargsort argsort ascending items =
     (let idx = [0..<length items];
          non_nan_idx = filter (\<lambda>i. items ! i \<noteq> None) idx;
          nan_idx = filter (\<lambda>i. items ! i = None) idx;
          non_nans = map (\<lambda>i. the (items ! i)) non_nan_idx
      in if ascending
         then map (\<lambda>j. non_nan_idx ! j) (argsort non_nans) @ nan_idx
         else rev (map (\<lambda>j. rev non_nan_idx ! j) (argsort (rev non_nans))) @ nan_idx)"

text \<open>
  \<^verbatim>\<open>df.sort_values(by, ascending=...)\<close>: a new frame. Sorting by a column of strings
  is outside the model.
\<close>

definition sort_values ::
    "(real list \<Rightarrow> nat list) \<Rightarrow> frame \<Rightarrow> string \<Rightarrow> bool \<Rightarrow> error + frame" where
  "sort_values argsort df by ascending =
     ebind (getitem df by) (\<lambda>c.
       case c of
         StrCol _ \<Rightarrow> Inl NotModelled
       | NumCol keys \<Rightarrow> Inr (frame_take (nargsort argsort ascending keys) df))"

text \<open>
  \<^verbatim>\<open>df.head(n)\<close>: the first \<open>n\<close> rows; for a negative \<open>n\<close> all rows but the last
  \<open>- n\<close>.
\<close>

definition head :: "int \<Rightarrow> frame \<Rightarrow> frame" where
  "head n df =
     (let m = frame_len df;
          k = (if 0 \<le> n then min (nat n) m else m - nat (- n))
      in frame_take [0..<k] df)"

text \<open>\<^verbatim>\<open>df[mask]\<close>: the rows where the mask is true, in their order.\<close>

definition boolean_mask :: "bool list \<Rightarrow> frame \<Rightarrow> frame" where
  "boolean_mask flags df = frame_take (filter (\<lambda>i. flags ! i) [0..<frame_len df]) df"

text \<open>
  The two queries. Each returns a pair: the frame it builds, and the caller's table
  after the call. Neither \<^verbatim>\<open>sort_values\<close> (called without \<^verbatim>\<open>inplace\<close>) nor
  \<^verbatim>\<open>head\<close> nor indexing by a mask writes to the frame it is applied to.
\<close>

definition get_top_students ::
    "(real list \<Rightarrow> nat list) \<Rightarrow> frame \<Rightarrow> int \<Rightarrow> error + (frame \<times> frame)" where
  "get_top_students argsort df n =
     ebind (sort_values argsort df Sredniy_ball False) (\<lambda>sorted_df.
       Inr (head n sorted_df, df))"

definition get_struggling_students ::
    "(real list \<Rightarrow> nat list) \<Rightarrow> frame \<Rightarrow> error + (frame \<times> frame)" where
  "get_struggling_students argsort df =
     ebind (getitem df Sredniy_ball) (\<lambda>c.
     ebind (as_numeric c) (\<lambda>avg.
     ebind (sort_values argsort (boolean_mask (map (\<lambda>x. num_lt x 3.5) avg) df) Sredniy_ball True)
       (\<lambda>sorted_df. Inr (sorted_df, df))))"

subsection \<open>Third script: test results\<close>

text \<open>
  The table \<^verbatim>\<open>test_info_df\<close> has a fixed schema and is a list of rows; so are the
  tables \<^verbatim>\<open>question_stats_df\<close> and \<^verbatim>\<open>topic_stats\<close> that the analysis builds.
\<close>

record test_info_row =
  ti_Zadanie :: string
  ti_Tema :: string
  ti_Maks_ball :: real
  ti_Slozhnost :: string

record question_stat =
  qs_Zadanie :: string
  qs_Tema :: string
  qs_Slozhnost :: string
  qs_Pravilnyh_otvetov :: real
  qs_Procent_pravilnyh :: num
  qs_Problemnoe :: string

record topic_stat =
  ts_Tema :: string
  ts_Procent_pravilnyh :: num
  ts_Problemnaya_tema :: string

text \<open>\<^verbatim>\<open>col.startswith(p)\<close>.\<close>

definition startswith :: "string \<Rightarrow> string \<Rightarrow> bool" where
  "startswith col p \<longleftrightarrow> take (length p) col = p"

text \<open>
  \<^verbatim>\<open>test_info_df[test_info_df[...] == col][...].values[0]\<close>: the first row of the
  question; \<^verbatim>\<open>IndexError\<close> when there is none.
\<close>

definition lookup_info :: "test_info_row list \<Rightarrow> string \<Rightarrow> error + test_info_row" where
  "lookup_info test_info_df col =
     (case filter (\<lambda>r. ti_Zadanie r = col) test_info_df of
        [] \<Rightarrow> Inl IndexError
      | r # _ \<Rightarrow> Inr r)"

text \<open>\<^verbatim>\<open>(x / n * 100).round(1)\<close> in numpy arithmetic: zero by zero is NaN.\<close>

definition percent_of :: "real \<Rightarrow> nat \<Rightarrow> num" where
  "percent_of x n = (if n = 0 then None else Some (round_dec 1 (x / real n * 100)))"

text \<open>The 2-bucket threshold of the script, used for questions and for topics.\<close>

definition problem_flag :: "num \<Rightarrow> string" where
  "problem_flag x = (if num_lt x 60 then Da else Net)"

text \<open>The loop over \<^verbatim>\<open>question_cols\<close>.\<close>

fun question_stats_loop ::
    "frame \<Rightarrow> test_info_row list \<Rightarrow> string list \<Rightarrow> error + question_stat list" where
  "question_stats_loop results_df test_info_df [] = Inr []"
| "question_stats_loop results_df test_info_df (col # rest) =
     ebind (getitem results_df col) (\<lambda>c.
     ebind (as_numeric c) (\<lambda>xs.
       let correct = nansum xs;
           total = frame_len results_df;
           percentage = percent_of correct total
       in ebind (lookup_info test_info_df col) (\<lambda>info.
          ebind (question_stats_loop results_df test_info_df rest) (\<lambda>qs.
            Inr (\<lparr>qs_Zadanie = col,
                  qs_Tema = ti_Tema info,
                  qs_Slozhnost = ti_Slozhnost info,
                  qs_Pravilnyh_otvetov = correct,
                  qs_Procent_pravilnyh = percentage,
                  qs_Problemnoe = problem_flag percentage\<rparr> # qs)))))"

text \<open>
  The topic statistics: \<^verbatim>\<open>groupby\<close> on the topic (groups come in the sorted order of
  their keys), the mean of the pass-rates of each group, rounded to one decimal, and the
  flag. A frame built from an empty list of questions has no topic column, and grouping
  by it raises \<^verbatim>\<open>KeyError\<close>.
\<close>

definition topic_rollup :: "question_stat list \<Rightarrow> error + topic_stat list" where
  "topic_rollup question_stats =
     (if question_stats = [] then Inl KeyError
      else Inr (map (\<lambda>t.
             let m = num_round 1 (nanmean (map qs_Procent_pravilnyh
                                      (filter (\<lambda>q. qs_Tema q = t) question_stats)))
             in \<lparr>ts_Tema = t, ts_Procent_pravilnyh = m, ts_Problemnaya_tema = problem_flag m\<rparr>)
           (sort (remdups (map qs_Tema question_stats)))))"

text \<open>
  \<^verbatim>\<open>analyze_test_results(results_df, test_info_df)\<close>. The frame \<^verbatim>\<open>results_df\<close> is
  changed in place and returned.
\<close>

definition analyze_test_results ::
    "frame \<Rightarrow> test_info_row list \<Rightarrow> error + (frame \<times> question_stat list \<times> topic_stat list)"
  where
  "analyze_test_results results_df test_info_df =
     (let question_cols = filter (\<lambda>col. startswith col Zadanie_prefix) (columns results_df)
      in ebind (numeric_columns results_df question_cols) (\<lambda>xss.
         let df1 = setitem results_df Obshchiy_ball
                     (NumCol (sum_axis1 (frame_len results_df) xss))
         in ebind (getitem df1 Obshchiy_ball) (\<lambda>c.
            ebind (as_numeric c) (\<lambda>total_score.
              let df2 = setitem df1 Procent
                          (NumCol (map (\<lambda>x. case x of None \<Rightarrow> None
                                           | Some v \<Rightarrow> percent_of v (length question_cols))
                                    total_score))
              in ebind (question_stats_loop df2 test_info_df question_cols) (\<lambda>question_stats.
                 ebind (topic_rollup question_stats) (\<lambda>topic_stats.
                   Inr (df2, question_stats, topic_stats)))))))"

subsection \<open>Record tables\<close>

text \<open>
  The input of the first script is a numeric table: column names are distinct, all
  columns have one length, and every column but the identifier column holds floats. A
  record table is a numeric table in which the two derived fields are not yet present.
\<close>

fun is_numeric :: "column \<Rightarrow> bool" where
  "is_numeric (NumCol xs) = True"
| "is_numeric (StrCol xs) = False"

definition wf_frame :: "frame \<Rightarrow> bool" where
  "wf_frame df \<longleftrightarrow>
     distinct (columns df) \<and> list_all (\<lambda>(k, c). col_len c = frame_len df) df"

definition numeric_table :: "frame \<Rightarrow> bool" where
  "numeric_table df \<longleftrightarrow>
     wf_frame df \<and> list_all (\<lambda>(k, c). k = Uchenik \<or> is_numeric c) df"

definition record_table :: "frame \<Rightarrow> bool" where
  "record_table df \<longleftrightarrow>
     numeric_table df \<and>
     Sredniy_ball \<notin> set (columns df) \<and> Status \<notin> set (columns df)"

text \<open>The value-bearing columns of a table, left to right, read off the table itself.\<close>

fun value_columns :: "frame \<Rightarrow> num list list" where
  "value_columns [] = []"
| "value_columns ((k, StrCol xs) # df) = value_columns df"
| "value_columns ((k, NumCol xs) # df) =
     (if k = Uchenik then value_columns df else xs # value_columns df)"

text \<open>The scores of row \<open>i\<close>: its cells in the value-bearing columns that are not NaN.\<close>

definition row_scores :: "frame \<Rightarrow> nat \<Rightarrow> real list" where
  "row_scores df i = dropna (map (\<lambda>xs. xs ! i) (value_columns df))"

text \<open>The arithmetic mean of the scores of row \<open>i\<close>, rounded to two decimals.\<close>

definition row_mean :: "frame \<Rightarrow> nat \<Rightarrow> num" where
  "row_mean df i =
     (if row_scores df i = [] then None
      else Some (round_dec 2 (sum_list (row_scores df i) / real (length (row_scores df i)))))"

definition derived_means :: "frame \<Rightarrow> num list" where
  "derived_means df = map (row_mean df) [0..<frame_len df]"

text \<open>A journal of three students and two subjects.\<close>

definition journal_example :: frame where
  "journal_example =
     [(Uchenik, StrCol [''Uchenik_1'', ''Uchenik_2'', ''Uchenik_3'']),
      (''Matematika'', NumCol [Some 5, Some 3, Some 4]),
      (''Fizika'', NumCol [Some 4, Some 2, Some 3])]"

text \<open>A journal of one student whose only score is one eighth.\<close>

definition eighth_example :: frame where
  "eighth_example = [(Uchenik, StrCol [''Uchenik_1'']), (''Matematika'', NumCol [Some (1 / 8)])]"

text \<open>The order of a descending sort: larger values first, NaN last.\<close>

definition desc_order :: "num \<Rightarrow> num \<Rightarrow> bool" where
  "desc_order a b =
     (case b of None \<Rightarrow> True | Some y \<Rightarrow> (case a of None \<Rightarrow> False | Some x \<Rightarrow> y \<le> x))"

text \<open>The journal example with its derived fields.\<close>

definition journal_result :: frame where
  "journal_result =
     journal_example @
       [(Sredniy_ball, NumCol [Some (9 / 2), Some (5 / 2), Some (7 / 2)]),
        (Status, StrCol [Otlichnik, Troechnik, Horoshist])]"

text \<open>A table of eighteen students with equal derived means.\<close>

definition tie_names :: "string list" where
  "tie_names = [''U01'', ''U02'', ''U03'', ''U04'', ''U05'', ''U06'', ''U07'', ''U08'', ''U09'', ''U10'', ''U11'', ''U12'', ''U13'', ''U14'', ''U15'', ''U16'', ''U17'', ''U18'']"

definition tie_means :: "num list" where
  "tie_means = [Some 4, Some 4, Some 4, Some 4, Some 4, Some 4, Some 4, Some 4, Some 4, Some 4, Some 4, Some 4, Some 4, Some 4, Some 4, Some 4, Some 4, Some 4]"

definition tie_example :: frame where
  "tie_example =
     [(Uchenik, StrCol tie_names),
      (''Matematika'', NumCol tie_means),
      (Sredniy_ball, NumCol tie_means),
      (Status, StrCol (replicate 18 Horoshist))]"

text \<open>The value-bearing columns with their names.\<close>

fun value_items :: "frame \<Rightarrow> (string \<times> num list) list" where
  "value_items [] = []"
| "value_items ((k, StrCol xs) # df) = value_items df"
| "value_items ((k, NumCol xs) # df) =
     (if k = Uchenik then value_items df else (k, xs) # value_items df)"

text \<open>The entry of \<^verbatim>\<open>subject_stats\<close> for a column of floats.\<close>

definition subject_stat_of :: "num list \<Rightarrow> subject_stat" where
  "subject_stat_of xs =
     \<lparr>subj_mean = num_round 2 (nanmean xs), subj_min = nanmin xs, subj_max = nanmax xs\<rparr>"

text \<open>
  A binary-scored column: every cell is 0 or 1.
\<close>

definition binary_column :: "num list \<Rightarrow> bool" where
  "binary_column xs \<longleftrightarrow> list_all (\<lambda>x. x = Some 0 \<or> x = Some 1) xs"

text \<open>
  The number of rows of a column whose value is the correct sentinel 1.
\<close>

definition count_correct :: "num list \<Rightarrow> nat" where
  "count_correct xs = length (filter (\<lambda>x. x = Some 1) xs)"

text \<open>
  The question columns of a results table: those whose name starts with the prefix.
\<close>

definition question_cols_of :: "frame \<Rightarrow> string list" where
  "question_cols_of df = filter (\<lambda>col. startswith col Zadanie_prefix) (columns df)"

text \<open>
  A binary-scored results table with its question information: column names are distinct,
  all columns have one length, there is at least one row and at least one question
  column, every question column is binary-scored and has a row in the question
  information.
\<close>

definition binary_results :: "frame \<Rightarrow> test_info_row list \<Rightarrow> bool" where
  "binary_results df test_info_df \<longleftrightarrow>
     wf_frame df \<and> 0 < frame_len df \<and> question_cols_of df \<noteq> [] \<and>
     list_all (\<lambda>(k, c). startswith k Zadanie_prefix \<longrightarrow>
                 (case c of NumCol xs \<Rightarrow> binary_column xs | StrCol _ \<Rightarrow> False)) df \<and>
     list_all (\<lambda>col. col \<in> set (map ti_Zadanie test_info_df)) (question_cols_of df)"

text \<open>
  Results of five students on two questions, and the information on the questions.
\<close>

definition results_example :: frame where
  "results_example =
     [(Uchenik, StrCol [''Uchenik_1'', ''Uchenik_2'', ''Uchenik_3'', ''Uchenik_4'', ''Uchenik_5'']),
      (''Zadanie_1'', NumCol [Some 1, Some 1, Some 1, Some 0, Some 0]),
      (''Zadanie_2'', NumCol [Some 1, Some 0, Some 0, Some 0, Some 0])]"

definition test_info_example :: "test_info_row list" where
  "test_info_example =
     [\<lparr>ti_Zadanie = ''Zadanie_1'', ti_Tema = ''Logarifmy'', ti_Maks_ball = 1,
       ti_Slozhnost = ''Legko''\<rparr>,
      \<lparr>ti_Zadanie = ''Zadanie_2'', ti_Tema = ''Algebra'', ti_Maks_ball = 1,
       ti_Slozhnost = ''Slozhno''\<rparr>]"

text \<open>
  Statistics of four questions on two topics.
\<close>

definition qs_example :: "question_stat list" where
  "qs_example =
     [\<lparr>qs_Zadanie = ''Zadanie_1'', qs_Tema = ''Logarifmy'', qs_Slozhnost = ''Legko'',
       qs_Pravilnyh_otvetov = 20, qs_Procent_pravilnyh = Some 80, qs_Problemnoe = Net\<rparr>,
      \<lparr>qs_Zadanie = ''Zadanie_2'', qs_Tema = ''Logarifmy'', qs_Slozhnost = ''Sredne'',
       qs_Pravilnyh_otvetov = 15, qs_Procent_pravilnyh = Some 60, qs_Problemnoe = Net\<rparr>,
      \<lparr>qs_Zadanie = ''Zadanie_3'', qs_Tema = ''Logarifmy'', qs_Slozhnost = ''Slozhno'',
       qs_Pravilnyh_otvetov = 10, qs_Procent_pravilnyh = Some 40, qs_Problemnoe = Da\<rparr>,
      \<lparr>qs_Zadanie = ''Zadanie_4'', qs_Tema = ''Algebra'', qs_Slozhnost = ''Sredne'',
       qs_Pravilnyh_otvetov = 12.5, qs_Procent_pravilnyh = Some 50, qs_Problemnoe = Da\<rparr>]"

section \<open>Properties\<close>

subsection \<open>Rounding\<close>

lemma rint_lower: "x - 1 / 2 \<le> real_of_int (rint x)"
  unfolding rint_def Let_def by (auto; linarith)

lemma rint_upper: "real_of_int (rint x) \<le> x + 1 / 2"
  unfolding rint_def Let_def by (auto; linarith)

lemma rint_of_int [simp]: "rint (of_int k) = k"
  unfolding rint_def Let_def by simp

lemma rint_ge_floor: "\<lfloor>x\<rfloor> \<le> rint x"
  unfolding rint_def Let_def by auto

lemma rint_le_floor1: "rint x \<le> \<lfloor>x\<rfloor> + 1"
  unfolding rint_def Let_def by auto

lemma rint_mono:
  assumes "x \<le> y"
  shows "rint x \<le> rint y"
proof (cases "\<lfloor>x\<rfloor> = \<lfloor>y\<rfloor>")
  case True
  with assms show ?thesis unfolding rint_def Let_def by auto
next
  case False
  with assms have "\<lfloor>x\<rfloor> < \<lfloor>y\<rfloor>" using floor_mono[OF assms] by linarith
  then have "rint x \<le> \<lfloor>y\<rfloor>" using rint_le_floor1[of x] by linarith
  then show ?thesis using rint_ge_floor[of y] by linarith
qed

lemma round_dec_mono: "x \<le> y \<Longrightarrow> round_dec d x \<le> round_dec d y"
  unfolding round_dec_def by (intro divide_right_mono) (auto intro!: rint_mono mult_right_mono)

lemma round_dec_grid [simp]: "round_dec d (of_int k / 10 ^ d) = of_int k / 10 ^ d"
  unfolding round_dec_def by simp

lemma round_dec_lower: "x - 1 / (2 * 10 ^ d) \<le> round_dec d x"
proof -
  have "x * 10 ^ d - 1 / 2 \<le> real_of_int (rint (x * 10 ^ d))" by (rule rint_lower)
  then have "(x * 10 ^ d - 1 / 2) / 10 ^ d \<le> real_of_int (rint (x * 10 ^ d)) / 10 ^ d"
    by (intro divide_right_mono) auto
  then show ?thesis unfolding round_dec_def by (simp add: field_simps)
qed

lemma round_dec_upper: "round_dec d x \<le> x + 1 / (2 * 10 ^ d)"
proof -
  have "real_of_int (rint (x * 10 ^ d)) \<le> x * 10 ^ d + 1 / 2" by (rule rint_upper)
  then have "real_of_int (rint (x * 10 ^ d)) / 10 ^ d \<le> (x * 10 ^ d + 1 / 2) / 10 ^ d"
    by (intro divide_right_mono) auto
  then show ?thesis unfolding round_dec_def by (simp add: field_simps)
qed

subsection \<open>Frames\<close>

lemma ebind_Inr [simp]: "ebind (Inr x) f = f x"
  by (simp add: ebind_def)

lemma ebind_Inl [simp]: "ebind (Inl e) f = Inl e"
  by (simp add: ebind_def)

lemma getitem_mem:
  "distinct (map fst df) \<Longrightarrow> (k, c) \<in> set df \<Longrightarrow> getitem df k = Inr c"
  by (simp add: getitem_def)

lemma setitem_fresh:
  "k \<notin> set (map fst df) \<Longrightarrow> setitem df k c = df @ [(k, c)]"
  by (induction df) auto

lemma getitem_append_fresh:
  "k \<notin> set (map fst df) \<Longrightarrow> getitem (df @ [(k, c)]) k = Inr c"
  by (simp add: getitem_def map_of_eq_None_iff[THEN iffD2] map_add_def)

lemma getitem_append_old:
  "k \<noteq> k' \<Longrightarrow> getitem (df @ [(k', c)]) k = getitem df k"
  by (simp add: getitem_def map_add_def split: option.splits)

lemma getitem_setitem_same: "getitem (setitem df k c) k = Inr c"
  by (induction df) (auto simp: getitem_def)

lemma getitem_setitem_other: "k \<noteq> k' \<Longrightarrow> getitem (setitem df k c) k' = getitem df k'"
  by (induction df) (auto simp: getitem_def)

lemma frame_len_setitem:
  "col_len c = frame_len df \<Longrightarrow> frame_len (setitem df k c) = frame_len df"
  by (cases df) (auto simp: frame_len_def)

lemma filter_setitem:
  "(\<And>v. \<not> P (k, v)) \<Longrightarrow> filter P (setitem df k c) = filter P df"
  by (induction df) auto

subsection \<open>What \<open>calculate_statistics\<close> returns on a record table\<close>

lemma numeric_columns_suffix:
  assumes "distinct (map fst df)"
  shows "set suf \<subseteq> set df \<Longrightarrow> list_all (\<lambda>(k, c). k = Uchenik \<or> is_numeric c) suf \<Longrightarrow>
    numeric_columns df (filter (\<lambda>col. col \<noteq> Uchenik) (map fst suf)) = Inr (value_columns suf)"
proof (induction suf rule: value_columns.induct)
  case 1
  then show ?case by simp
next
  case (2 k xs df')
  then show ?case by simp
next
  case (3 k xs df')
  then show ?case using assms by (auto simp: getitem_mem)
qed

lemma record_table_numeric: "record_table df \<Longrightarrow> numeric_table df"
  by (simp add: record_table_def)

lemma numeric_columns_numeric:
  "numeric_table df \<Longrightarrow>
   numeric_columns df (filter (\<lambda>col. col \<noteq> Uchenik) (columns df)) = Inr (value_columns df)"
  unfolding numeric_table_def wf_frame_def columns_def
  by (intro numeric_columns_suffix) auto

lemma nanmean_round:
  "num_round 2 (nanmean (map (\<lambda>xs. xs ! i) (value_columns df))) = row_mean df i"
  by (simp add: num_round_def nanmean_def row_mean_def row_scores_def Let_def)

lemma calculate_statistics_numeric:
  assumes "numeric_table df"
  shows "calculate_statistics (Some df) =
     Inr (Some (setitem (setitem df Sredniy_ball (NumCol (derived_means df)))
                  Status (StrCol (map get_status (derived_means df)))),
          Some (filter (\<lambda>col. col \<noteq> Uchenik) (columns df)))"
proof -
  have m: "map (num_round 2) (mean_axis1 (frame_len df) (value_columns df)) = derived_means df"
    by (simp add: mean_axis1_def derived_means_def nanmean_round)
  have m2: "map (get_status \<circ> num_round 2) (mean_axis1 (frame_len df) (value_columns df))
      = map get_status (derived_means df)"
    using m by (metis map_map)
  show ?thesis
    unfolding calculate_statistics_def
    by (simp add: numeric_columns_numeric[OF assms] m m2 getitem_setitem_same Let_def)
qed

lemma calculate_statistics_fields:
  assumes "numeric_table df"
  shows "\<exists>df'. calculate_statistics (Some df) =
            Inr (Some df', Some (filter (\<lambda>col. col \<noteq> Uchenik) (columns df))) \<and>
          getitem df' Sredniy_ball = Inr (NumCol (derived_means df)) \<and>
          getitem df' Status = Inr (StrCol (map get_status (derived_means df)))"
proof -
  have ne: "Status \<noteq> Sredniy_ball" by (simp add: literal_defs)
  show ?thesis
    using calculate_statistics_numeric[OF assms] ne
    by (simp add: getitem_setitem_same getitem_setitem_other)
qed

lemma calculate_statistics_record:
  assumes "record_table df"
  shows "calculate_statistics (Some df) =
     Inr (Some (df @ [(Sredniy_ball, NumCol (derived_means df)),
                      (Status, StrCol (map get_status (derived_means df)))]),
          Some (filter (\<lambda>col. col \<noteq> Uchenik) (columns df)))"
proof -
  have f1: "Sredniy_ball \<notin> set (map fst df)" and f2: "Status \<notin> set (map fst df)"
    using assms by (simp_all add: record_table_def columns_def)
  have ne: "Status \<noteq> Sredniy_ball" by (simp add: literal_defs)
  have f3: "Status \<notin> set (map fst (df @ [(Sredniy_ball, NumCol (derived_means df))]))"
    using f2 ne by simp
  show ?thesis
    using calculate_statistics_numeric[OF record_table_numeric[OF assms]]
    by (simp add: setitem_fresh[OF f1] setitem_fresh[OF f3])
qed

subsection \<open>Row means and status buckets\<close>

lemma get_status_Some:
  "(get_status (Some a) = Otlichnik \<longleftrightarrow> 4.5 \<le> a) \<and>
   (get_status (Some a) = Horoshist \<longleftrightarrow> 3.5 \<le> a \<and> a < 4.5) \<and>
   (get_status (Some a) = Troechnik \<longleftrightarrow> 2.5 \<le> a \<and> a < 3.5) \<and>
   (get_status (Some a) = Trebuet_vnimaniya \<longleftrightarrow> a < 2.5)"
  by (simp add: get_status_def num_ge_def literal_defs)

lemma get_status_None: "get_status None = Trebuet_vnimaniya"
  by (simp add: get_status_def num_ge_def)

lemma record_table_journal_example: "record_table journal_example"
  by (simp add: record_table_def numeric_table_def wf_frame_def journal_example_def columns_def frame_len_def
      literal_defs)

lemma numeric_table_journal_example: "numeric_table journal_example"
  using record_table_journal_example by (rule record_table_numeric)

lemma frame_len_journal_example: "frame_len journal_example = 3"
  by (simp add: journal_example_def frame_len_def)

lemma row_scores_journal_example:
  "row_scores journal_example 0 = [5, 4]"
  "row_scores journal_example (Suc 0) = [3, 2]"
  "row_scores journal_example 2 = [4, 3]"
  by (simp_all add: row_scores_def journal_example_def dropna_def literal_defs)

lemma round_dec_2_examples:
  "round_dec 2 (9 / 2) = 9 / 2" "round_dec 2 (5 / 2) = 5 / 2" "round_dec 2 (7 / 2) = 7 / 2"
  by (simp_all add: round_dec_def rint_def Let_def)

text \<open>
  Claim C1. On a numeric table \<open>calculate_statistics\<close> succeeds and returns the names of
  the value-bearing columns (all columns but the identifier). In the returned table the
  derived mean of each row is the arithmetic mean of the row's scores in those columns
  rounded to two decimals (NaN when the row has no score), and the status of the row is
  the bucket of that derived mean. The buckets are: at least 4.5, at least 3.5 and below
  4.5, at least 2.5 and below 3.5, below 2.5 (or NaN). Every real mean falls into exactly
  one of them and a boundary value belongs to the higher one.
\<close>

theorem calculate_statistics_mean_and_status:
  assumes "numeric_table df"
  shows "\<exists>df' avg st.
     calculate_statistics (Some df) =
       Inr (Some df', Some (filter (\<lambda>col. col \<noteq> Uchenik) (columns df))) \<and>
     getitem df' Sredniy_ball = Inr (NumCol avg) \<and>
     getitem df' Status = Inr (StrCol st) \<and>
     length avg = frame_len df \<and> length st = frame_len df \<and>
     (\<forall>i < frame_len df.
        avg ! i =
          (if row_scores df i = [] then None
           else Some (round_dec 2 (sum_list (row_scores df i) / real (length (row_scores df i))))) \<and>
        st ! i = get_status (avg ! i)) \<and>
     get_status None = Trebuet_vnimaniya \<and>
     (\<forall>a. (get_status (Some a) = Otlichnik \<longleftrightarrow> 4.5 \<le> a) \<and>
          (get_status (Some a) = Horoshist \<longleftrightarrow> 3.5 \<le> a \<and> a < 4.5) \<and>
          (get_status (Some a) = Troechnik \<longleftrightarrow> 2.5 \<le> a \<and> a < 3.5) \<and>
          (get_status (Some a) = Trebuet_vnimaniya \<longleftrightarrow> a < 2.5))"
proof -
  let ?avg = "derived_means df"
  let ?st = "map get_status ?avg"
  obtain df' where c: "calculate_statistics (Some df) =
            Inr (Some df', Some (filter (\<lambda>col. col \<noteq> Uchenik) (columns df)))"
    and g1: "getitem df' Sredniy_ball = Inr (NumCol ?avg)"
    and g2: "getitem df' Status = Inr (StrCol ?st)"
    using calculate_statistics_fields[OF assms] by blast
  have rows: "\<forall>i < frame_len df.
        ?avg ! i =
          (if row_scores df i = [] then None
           else Some (round_dec 2 (sum_list (row_scores df i) / real (length (row_scores df i))))) \<and>
        ?st ! i = get_status (?avg ! i)"
    by (simp add: derived_means_def row_mean_def)
  have lens: "length ?avg = frame_len df" "length ?st = frame_len df"
    by (simp_all add: derived_means_def)
  show ?thesis
    using c g1 g2 rows lens get_status_None get_status_Some
    by blast
qed

theorem calculate_statistics_mean_and_status_witness:
  "numeric_table journal_example \<and>
   (\<exists>df' avg st.
      calculate_statistics (Some journal_example) = Inr (Some df', Some [''Matematika'', ''Fizika'']) \<and>
      getitem df' Sredniy_ball = Inr (NumCol avg) \<and>
      getitem df' Status = Inr (StrCol st) \<and>
      avg ! 0 = Some 4.5 \<and> st ! 0 = Otlichnik \<and>
      avg ! 1 = Some 2.5 \<and> st ! 1 = Troechnik \<and>
      avg ! 2 = Some 3.5 \<and> st ! 2 = Horoshist)"
proof -
  have cols: "filter (\<lambda>col. col \<noteq> Uchenik) (columns journal_example) = [''Matematika'', ''Fizika'']"
    by (simp add: journal_example_def columns_def literal_defs)
  from calculate_statistics_mean_and_status[OF numeric_table_journal_example]
  obtain df' avg st where
    c: "calculate_statistics (Some journal_example) = Inr (Some df', Some [''Matematika'', ''Fizika''])"
    and g: "getitem df' Sredniy_ball = Inr (NumCol avg)" "getitem df' Status = Inr (StrCol st)"
    and rows: "\<forall>i < frame_len journal_example.
        avg ! i =
          (if row_scores journal_example i = [] then None
           else Some (round_dec 2 (sum_list (row_scores journal_example i)
                        / real (length (row_scores journal_example i))))) \<and>
        st ! i = get_status (avg ! i)"
    unfolding cols by blast
  have a0: "avg ! 0 = Some 4.5" and a1: "avg ! 1 = Some 2.5" and a2: "avg ! 2 = Some 3.5"
    using rows
    by (simp_all add: frame_len_journal_example row_scores_journal_example round_dec_2_examples)
  have s0: "st ! 0 = Otlichnik" and s1: "st ! 1 = Troechnik" and s2: "st ! 2 = Horoshist"
    using rows a0 a1 a2
    by (simp_all add: frame_len_journal_example get_status_def num_ge_def)
  show ?thesis using numeric_table_journal_example c g a0 a1 a2 s0 s1 s2 by blast
qed

subsection \<open>The derived mean and the range of the row\<close>

lemma sum_list_lower: "(\<And>x. x \<in> set xs \<Longrightarrow> a \<le> x) \<Longrightarrow> a * real (length xs) \<le> sum_list xs"
  by (induction xs) (auto simp: algebra_simps intro: add_mono)

lemma sum_list_upper: "(\<And>x. x \<in> set xs \<Longrightarrow> x \<le> b) \<Longrightarrow> sum_list xs \<le> b * real (length xs)"
  by (induction xs) (auto simp: algebra_simps intro: add_mono)

lemma mean_between:
  fixes xs :: "real list"
  assumes "xs \<noteq> []"
  shows "Min (set xs) \<le> sum_list xs / real (length xs)"
    and "sum_list xs / real (length xs) \<le> Max (set xs)"
proof -
  have pos: "0 < real (length xs)" using assms by simp
  have "Min (set xs) * real (length xs) \<le> sum_list xs"
    by (rule sum_list_lower) simp
  then show "Min (set xs) \<le> sum_list xs / real (length xs)"
    using pos by (simp add: field_simps)
  have "sum_list xs \<le> Max (set xs) * real (length xs)"
    by (rule sum_list_upper) simp
  then show "sum_list xs / real (length xs) \<le> Max (set xs)"
    using pos by (simp add: field_simps)
qed

lemma round2_between:
  fixes xs :: "real list"
  assumes "xs \<noteq> []"
  defines "m \<equiv> round_dec 2 (sum_list xs / real (length xs))"
  shows "Min (set xs) - 1 / 200 \<le> m" and "m \<le> Max (set xs) + 1 / 200"
    and "(\<forall>v \<in> set xs. \<exists>k::int. v = of_int k / 100) \<longrightarrow> Min (set xs) \<le> m \<and> m \<le> Max (set xs)"
proof -
  let ?mu = "sum_list xs / real (length xs)"
  have lo: "Min (set xs) \<le> ?mu" and hi: "?mu \<le> Max (set xs)"
    using mean_between[OF assms(1)] by auto
  show "Min (set xs) - 1 / 200 \<le> m"
    using round_dec_lower[where x="?mu" and d=2] lo unfolding m_def by simp
  show "m \<le> Max (set xs) + 1 / 200"
    using round_dec_upper[where x="?mu" and d=2] hi unfolding m_def by simp
  show "(\<forall>v \<in> set xs. \<exists>k::int. v = of_int k / 100) \<longrightarrow> Min (set xs) \<le> m \<and> m \<le> Max (set xs)"
  proof
    assume grid: "\<forall>v \<in> set xs. \<exists>k::int. v = of_int k / 100"
    have "Min (set xs) \<in> set xs" "Max (set xs) \<in> set xs"
      using assms(1) by (simp_all)
    then obtain k1 k2 :: int where k: "Min (set xs) = of_int k1 / 100" "Max (set xs) = of_int k2 / 100"
      using grid by blast
    have "round_dec 2 (of_int k1 / 10 ^ 2) \<le> m" "m \<le> round_dec 2 (of_int k2 / 10 ^ 2)"
      unfolding m_def using lo hi k by (auto intro!: round_dec_mono)
    then show "Min (set xs) \<le> m \<and> m \<le> Max (set xs)"
      unfolding round_dec_grid using k by simp
  qed
qed

text \<open>
  Claim C8, as amended. For a row of a numeric table that has at least one score, the
  derived mean (the arithmetic mean rounded to two decimals) lies within 0.005 of the
  interval from the least to the greatest score of the row; it lies inside the interval
  whenever every score of the row is a multiple of 0.01, as whole grades are.
\<close>

theorem derived_mean_near_row_range:
  assumes "numeric_table df" and "i < frame_len df" and "row_scores df i \<noteq> []"
  shows "\<exists>df' cols avg m.
     calculate_statistics (Some df) = Inr (Some df', cols) \<and>
     getitem df' Sredniy_ball = Inr (NumCol avg) \<and> avg ! i = Some m \<and>
     Min (set (row_scores df i)) - 1 / 200 \<le> m \<and> m \<le> Max (set (row_scores df i)) + 1 / 200 \<and>
     ((\<forall>v \<in> set (row_scores df i). \<exists>k::int. v = of_int k / 100) \<longrightarrow>
        Min (set (row_scores df i)) \<le> m \<and> m \<le> Max (set (row_scores df i)))"
proof -
  let ?avg = "derived_means df"
  let ?m = "round_dec 2 (sum_list (row_scores df i) / real (length (row_scores df i)))"
  obtain df' where c: "calculate_statistics (Some df) =
            Inr (Some df', Some (filter (\<lambda>col. col \<noteq> Uchenik) (columns df)))"
    and g1: "getitem df' Sredniy_ball = Inr (NumCol ?avg)"
    using calculate_statistics_fields[OF assms(1)] by blast
  have a: "?avg ! i = Some ?m"
    using assms(2,3) by (simp add: derived_means_def row_mean_def)
  show ?thesis
    using c g1 a round2_between[OF assms(3)]
    by blast
qed

text \<open>
  The claim as stated fails: a single score of 0.125 has the derived mean 0.12, which is
  below the least score of the row.
\<close>

lemma record_table_eighth_example: "record_table eighth_example"
  by (simp add: record_table_def numeric_table_def wf_frame_def eighth_example_def columns_def frame_len_def
      literal_defs)

lemma row_scores_eighth_example: "row_scores eighth_example 0 = [1 / 8]"
  by (simp add: row_scores_def eighth_example_def dropna_def literal_defs)

lemma frame_len_eighth_example: "frame_len eighth_example = 1"
  by (simp add: eighth_example_def frame_len_def)

lemma derived_means_eighth_example: "derived_means eighth_example = [Some (3 / 25)]"
  by (simp add: derived_means_def row_mean_def row_scores_eighth_example
      frame_len_eighth_example round_dec_def rint_def Let_def)

theorem derived_mean_below_row_minimum:
  "calculate_statistics (Some eighth_example) =
     Inr (Some (eighth_example @ [(Sredniy_ball, NumCol [Some (3 / 25)]),
                                  (Status, StrCol [Trebuet_vnimaniya])]),
          Some [''Matematika'']) \<and>
   row_scores eighth_example 0 = [1 / 8] \<and>
   (3 / 25 :: real) < Min (set (row_scores eighth_example 0))"
proof -
  have cols: "filter (\<lambda>col. col \<noteq> Uchenik) (columns eighth_example) = [''Matematika'']"
    by (simp add: eighth_example_def columns_def literal_defs)
  have st: "get_status (Some (3 / 25)) = Trebuet_vnimaniya"
    by (simp add: get_status_def num_ge_def)
  show ?thesis
    using calculate_statistics_record[OF record_table_eighth_example]
    by (simp add: cols derived_means_eighth_example st row_scores_eighth_example)
qed

theorem derived_mean_near_row_range_witness:
  "numeric_table journal_example \<and> (0::nat) < frame_len journal_example \<and>
   row_scores journal_example 0 = [5, 4] \<and>
   (\<exists>df' cols avg m.
     calculate_statistics (Some journal_example) = Inr (Some df', cols) \<and>
     getitem df' Sredniy_ball = Inr (NumCol avg) \<and> avg ! 0 = Some m \<and>
     4 \<le> m \<and> m \<le> 5)"
proof -
  have h2: "0 < frame_len journal_example" by (simp add: frame_len_journal_example)
  have h3: "row_scores journal_example 0 \<noteq> []" by (simp add: row_scores_journal_example)
  have grid: "\<forall>v \<in> set (row_scores journal_example 0). \<exists>k::int. v = of_int k / 100"
  proof -
    have "(5::real) = of_int 500 / 100" "(4::real) = of_int 400 / 100" by simp_all
    then show ?thesis unfolding row_scores_journal_example by (metis list.set_cases list.inject set_ConsD empty_iff empty_set)
  qed
  from derived_mean_near_row_range[OF numeric_table_journal_example h2 h3]
  obtain df' cols avg m where
    c: "calculate_statistics (Some journal_example) = Inr (Some df', cols)"
    and g: "getitem df' Sredniy_ball = Inr (NumCol avg)" "avg ! 0 = Some m"
    and b: "(\<forall>v \<in> set (row_scores journal_example 0). \<exists>k::int. v = of_int k / 100) \<longrightarrow>
        Min (set (row_scores journal_example 0)) \<le> m \<and> m \<le> Max (set (row_scores journal_example 0))"
    by blast
  from b grid have "4 \<le> m \<and> m \<le> 5" by (simp add: row_scores_journal_example)
  then show ?thesis
    using numeric_table_journal_example h2 row_scores_journal_example(1) c g by blast
qed

subsection \<open>Ranking\<close>

lemma sorts_positions_stable: "sorts_positions stable_argsort xs"
  by (simp add: sorts_positions_def stable_argsort_def)

lemma argsort_ok_stable: "argsort_ok stable_argsort"
  by (simp add: argsort_ok_def sorts_positions_stable)

lemma sorts_positionsD:
  assumes "sorts_positions f xs"
  shows "mset (f xs) = mset [0..<length xs]" and "sorted (map (\<lambda>j. xs ! j) (f xs))"
    and "set (f xs) = {0..<length xs}" and "length (f xs) = length xs"
proof -
  show m: "mset (f xs) = mset [0..<length xs]" and "sorted (map (\<lambda>j. xs ! j) (f xs))"
    using assms by (simp_all add: sorts_positions_def)
  show "set (f xs) = {0..<length xs}" using m by (metis mset_eq_setD set_upt)
  show "length (f xs) = length xs" using m by (metis mset_eq_length length_upt diff_zero)
qed

lemma mset_map_nth_perm:
  assumes "mset q = mset [0..<length l]"
  shows "mset (map (\<lambda>j. l ! j) q) = mset l"
proof -
  have "mset (map (\<lambda>j. l ! j) q) = image_mset (\<lambda>j. l ! j) (mset q)" by simp
  also have "\<dots> = mset (map (\<lambda>j. l ! j) [0..<length l])" using assms by simp
  also have "\<dots> = mset l" by (simp add: map_nth)
  finally show ?thesis .
qed

lemma mset_filter_split: "mset (filter P xs) + mset (filter (\<lambda>x. \<not> P x) xs) = mset xs"
  by (induction xs) auto

lemma dropna_filter: "dropna xs = map the (filter (\<lambda>x. x \<noteq> None) xs)"
  by (induction xs) (auto simp: dropna_def)

lemma non_nans_dropna:
  "map (\<lambda>i. the (items ! i)) (filter (\<lambda>i. items ! i \<noteq> None) [0..<length items]) = dropna items"
proof -
  have "filter (\<lambda>x. x \<noteq> None) items
      = filter (\<lambda>x. x \<noteq> None) (map (\<lambda>i. items ! i) [0..<length items])"
    by (simp add: map_nth)
  also have "\<dots> = map (\<lambda>i. items ! i) (filter (\<lambda>i. items ! i \<noteq> None) [0..<length items])"
    by (simp add: filter_map comp_def)
  finally show ?thesis by (simp add: dropna_filter comp_def)
qed

lemma mset_nargsort_desc:
  assumes "sorts_positions f (rev (dropna items))"
  shows "mset (nargsort f False items) = mset [0..<length items]"
proof -
  let ?idx = "[0..<length items]"
  let ?nn = "filter (\<lambda>i. items ! i \<noteq> None) ?idx"
  let ?na = "filter (\<lambda>i. items ! i = None) ?idx"
  let ?v = "map (\<lambda>i. the (items ! i)) ?nn"
  have v: "?v = dropna items" by (rule non_nans_dropna)
  have split: "mset ?nn + mset ?na = mset ?idx"
    using mset_filter_split[of "\<lambda>i. items ! i \<noteq> None" ?idx] by simp
  have "length (rev ?v) = length (rev ?nn)" by simp
  then have "mset (f (rev ?v)) = mset [0..<length (rev ?nn)]"
    using sorts_positionsD(1)[OF assms] unfolding v by simp
  then have "mset (map (\<lambda>j. rev ?nn ! j) (f (rev ?v))) = mset (rev ?nn)"
    by (rule mset_map_nth_perm)
  then have d: "mset (map (\<lambda>j. rev ?nn ! j) (f (rev ?v))) = mset ?nn" by simp
  show ?thesis
    unfolding nargsort_def Let_def using d split by (simp del: mset_filter mset_upt)
qed

lemma desc_sorted_rev: "sorted s \<Longrightarrow> sorted_wrt desc_order (map Some (rev s))"
  by (simp add: sorted_wrt_map sorted_wrt_rev desc_order_def)

lemma desc_order_None [simp]: "desc_order a None"
  by (simp add: desc_order_def)

lemma desc_sorted_nan: "\<forall>x \<in> set B. x = None \<Longrightarrow> sorted_wrt desc_order B"
  by (induction B) auto

lemma desc_sorted_append_nan:
  assumes "sorted_wrt desc_order A" and "\<And>x. x \<in> set B \<Longrightarrow> x = None"
  shows "sorted_wrt desc_order (A @ B)"
proof -
  have "desc_order a b" if "a \<in> set A" "b \<in> set B" for a b
    using assms(2)[OF that(2)] by simp
  then show ?thesis
    using assms(1) desc_sorted_nan[of B] assms(2) by (simp add: sorted_wrt_append)
qed

lemma keys_along:
  assumes "\<And>i. i \<in> set nn \<Longrightarrow> items ! i \<noteq> None" and "set q \<subseteq> {0..<length nn}"
  shows "map (\<lambda>i. items ! i) (map (\<lambda>j. nn ! j) q)
       = map Some (map (\<lambda>j. map (\<lambda>i. the (items ! i)) nn ! j) q)"
proof -
  have "items ! (nn ! j) = Some (map (\<lambda>i. the (items ! i)) nn ! j)" if "j \<in> set q" for j
  proof -
    have j: "j < length nn" using that assms(2) by auto
    then have "items ! (nn ! j) \<noteq> None" using assms(1) by simp
    then show ?thesis using j by auto
  qed
  then show ?thesis by simp
qed

lemma sorted_nargsort_desc:
  assumes "sorts_positions f (rev (dropna items))"
  shows "sorted_wrt desc_order (map (\<lambda>i. items ! i) (nargsort f False items))"
proof -
  define nn where "nn = filter (\<lambda>i. items ! i \<noteq> None) [0..<length items]"
  define na where "na = filter (\<lambda>i. items ! i = None) [0..<length items]"
  define v where "v = map (\<lambda>i. the (items ! i)) nn"
  define q where "q = f (rev v)"
  have vd: "v = dropna items" unfolding v_def nn_def by (rule non_nans_dropna)
  have n: "nargsort f False items = rev (map (\<lambda>j. rev nn ! j) q) @ na"
    by (simp add: nargsort_def Let_def nn_def na_def v_def q_def)
  have rv: "rev v = map (\<lambda>i. the (items ! i)) (rev nn)"
    by (simp add: v_def rev_map)
  have "set q = {0..<length (rev v)}"
    unfolding q_def vd by (rule sorts_positionsD(3)[OF assms])
  then have qset: "set q \<subseteq> {0..<length (rev nn)}"
    by (simp add: v_def)
  have nn_ok: "\<And>i. i \<in> set (rev nn) \<Longrightarrow> items ! i \<noteq> None"
    by (simp add: nn_def)
  have "map (\<lambda>i. items ! i) (map (\<lambda>j. rev nn ! j) q) = map Some (map (\<lambda>j. rev v ! j) q)"
    using keys_along[of "rev nn" items q, OF nn_ok qset] by (simp only: rv)
  then have eq: "map (\<lambda>i. items ! i) (rev (map (\<lambda>j. rev nn ! j) q))
      = map Some (rev (map (\<lambda>j. rev v ! j) q))"
    by (simp only: rev_map[symmetric])
  have "sorted (map (\<lambda>j. rev v ! j) q)"
    unfolding q_def vd by (rule sorts_positionsD(2)[OF assms])
  then have "sorted_wrt desc_order (map Some (rev (map (\<lambda>j. rev v ! j) q)))"
    by (rule desc_sorted_rev)
  then have A: "sorted_wrt desc_order (map (\<lambda>i. items ! i) (rev (map (\<lambda>j. rev nn ! j) q)))"
    by (simp only: eq)
  have B: "x = None" if "x \<in> set (map (\<lambda>i. items ! i) na)" for x
    using that by (auto simp: na_def)
  have "sorted_wrt desc_order (map (\<lambda>i. items ! i) (rev (map (\<lambda>j. rev nn ! j) q))
          @ map (\<lambda>i. items ! i) na)"
    using A B by (rule desc_sorted_append_nan)
  then show ?thesis by (simp only: n map_append)
qed

lemma map_nth_upt_take: "k \<le> length p \<Longrightarrow> map (\<lambda>i. p ! i) [0..<k] = take k p"
  by (rule nth_equalityI) auto

lemma col_take_col_take:
  "k \<le> length p \<Longrightarrow> col_take [0..<k] (col_take p c) = col_take (take k p) c"
  by (cases c) (simp_all add: map_nth_upt_take[symmetric])

lemma frame_take_frame_take:
  "k \<le> length p \<Longrightarrow> frame_take [0..<k] (frame_take p df) = frame_take (take k p) df"
  by (simp add: frame_take_def col_take_col_take case_prod_unfold)

lemma col_len_col_take [simp]: "col_len (col_take p c) = length p"
  by (cases c) simp_all

lemma frame_len_frame_take: "df \<noteq> [] \<Longrightarrow> frame_len (frame_take p df) = length p"
  by (cases df) (auto simp: frame_len_def frame_take_def)

lemma head_frame_take:
  "df \<noteq> [] \<Longrightarrow> head (int n) (frame_take p df) = frame_take (take n p) df"
proof -
  assume "df \<noteq> []"
  then have "head (int n) (frame_take p df) = frame_take (take (min n (length p)) p) df"
    by (simp add: head_def Let_def frame_len_frame_take frame_take_frame_take)
  then show ?thesis by (simp add: min_def)
qed

lemma getitem_Inr_mem: "getitem df k = Inr c \<Longrightarrow> (k, c) \<in> set df"
  by (auto simp: getitem_def split: option.splits dest: map_of_SomeD)

lemma wf_frame_col_len:
  "wf_frame df \<Longrightarrow> getitem df k = Inr c \<Longrightarrow> col_len c = frame_len df"
  by (auto simp: wf_frame_def list_all_iff dest!: getitem_Inr_mem)

lemma length_nargsort_desc:
  assumes "sorts_positions f (rev (dropna items))"
  shows "length (nargsort f False items) = length items"
  using mset_nargsort_desc[OF assms] by (metis mset_eq_length length_upt diff_zero)

lemma get_top_students_eq:
  assumes "getitem df Sredniy_ball = Inr (NumCol keys)"
  shows "get_top_students argsort df (int n) =
           Inr (frame_take (take n (nargsort argsort False keys)) df, df)"
proof -
  have ne: "df \<noteq> []" using assms by (auto simp: getitem_def)
  have s: "sort_values argsort df Sredniy_ball False
             = Inr (frame_take (nargsort argsort False keys) df)"
    by (simp add: sort_values_def assms)
  show ?thesis by (simp add: get_top_students_def s head_frame_take[OF ne])
qed

text \<open>
  Claim C2, as amended. Let the table have a column of derived means, and let the index
  sort, applied to the means that pandas hands it (those that are not NaN, last row
  first), return positions along which they ascend. Then \<open>get_top_students\<close> with a count
  \<open>n\<close> returns the rows at the first \<open>n\<close> positions of an arrangement \<open>p\<close> of all row
  positions along which the derived means descend (NaN last): no row left out has a
  larger mean than a row returned. When \<open>n\<close> is at least the number of rows, all rows are
  returned. Nothing is said about the order of rows with equal means.
\<close>

theorem get_top_students_sorted_prefix:
  assumes "sorts_positions argsort (rev (dropna keys))" and "wf_frame df"
    and "getitem df Sredniy_ball = Inr (NumCol keys)"
  shows "\<exists>p. get_top_students argsort df (int n) = Inr (frame_take (take n p) df, df) \<and>
             mset p = mset [0..<frame_len df] \<and>
             sorted_wrt desc_order (map (\<lambda>i. keys ! i) p) \<and>
             (\<forall>i \<in> set (take n p). \<forall>j \<in> set (drop n p). desc_order (keys ! i) (keys ! j)) \<and>
             (frame_len df \<le> n \<longrightarrow> take n p = p)"
proof -
  let ?p = "nargsort argsort False keys"
  have len: "length keys = frame_len df"
    using wf_frame_col_len[OF assms(2,3)] by simp
  have r: "get_top_students argsort df (int n) = Inr (frame_take (take n ?p) df, df)"
    by (rule get_top_students_eq[OF assms(3)])
  have m: "mset ?p = mset [0..<frame_len df]"
    using mset_nargsort_desc[OF assms(1)] len by simp
  have so: "sorted_wrt desc_order (map (\<lambda>i. keys ! i) ?p)"
    by (rule sorted_nargsort_desc[OF assms(1)])
  have "sorted_wrt desc_order (map (\<lambda>i. keys ! i) (take n ?p @ drop n ?p))"
    using so by simp
  then have cut: "\<forall>i \<in> set (take n ?p). \<forall>j \<in> set (drop n ?p). desc_order (keys ! i) (keys ! j)"
    unfolding map_append sorted_wrt_append by auto
  have all: "frame_len df \<le> n \<longrightarrow> take n ?p = ?p"
    using length_nargsort_desc[OF assms(1)] len by simp
  show ?thesis using r m so cut all by blast
qed

lemma nargsort_journal_result: "nargsort stable_argsort False [Some (9 / 2), Some (5 / 2), Some (7 / 2)] = [0, 2, 1]"
  by (simp add: nargsort_def stable_argsort_def Let_def upt_rec del: not_None_eq)

lemma wf_journal_result: "wf_frame journal_result"
  by (simp add: wf_frame_def journal_result_def journal_example_def columns_def frame_len_def
      literal_defs)

lemma getitem_journal_result:
  "getitem journal_result Sredniy_ball = Inr (NumCol [Some (9 / 2), Some (5 / 2), Some (7 / 2)])"
  by (simp add: getitem_def journal_result_def journal_example_def literal_defs)

lemma top2_journal_result: "get_top_students stable_argsort journal_result 2 =
   Inr ([(Uchenik, StrCol [''Uchenik_1'', ''Uchenik_3'']),
         (''Matematika'', NumCol [Some 5, Some 4]),
         (''Fizika'', NumCol [Some 4, Some 3]),
         (Sredniy_ball, NumCol [Some (9 / 2), Some (7 / 2)]),
         (Status, StrCol [Otlichnik, Horoshist])], journal_result)"
proof -
  have "frame_take (take 2 [0, 2, 1]) journal_result =
     [(Uchenik, StrCol [''Uchenik_1'', ''Uchenik_3'']),
         (''Matematika'', NumCol [Some 5, Some 4]),
         (''Fizika'', NumCol [Some 4, Some 3]),
         (Sredniy_ball, NumCol [Some (9 / 2), Some (7 / 2)]),
         (Status, StrCol [Otlichnik, Horoshist])]"
    by (simp add: frame_take_def journal_result_def journal_example_def)
  then show ?thesis
    using get_top_students_eq[OF getitem_journal_result, of stable_argsort 2, unfolded nargsort_journal_result]
    by simp
qed

lemma derived_means_journal_example:
  "derived_means journal_example = [Some (9 / 2), Some (5 / 2), Some (7 / 2)]"
proof -
  have "[0..<3] = [0, Suc 0, 2]" by (auto simp: upt_rec numeral_2_eq_2)
  then show ?thesis
    by (simp add: derived_means_def row_mean_def frame_len_journal_example
        row_scores_journal_example round_dec_2_examples)
qed

lemma calculate_statistics_journal_example:
  "calculate_statistics (Some journal_example) =
     Inr (Some journal_result, Some [''Matematika'', ''Fizika''])"
proof -
  have cols: "filter (\<lambda>col. col \<noteq> Uchenik) (columns journal_example) = [''Matematika'', ''Fizika'']"
    by (simp add: journal_example_def columns_def literal_defs)
  have st: "map get_status [Some (9 / 2), Some (5 / 2), Some (7 / 2)] = [Otlichnik, Troechnik, Horoshist]"
    by (simp add: get_status_def num_ge_def)
  show ?thesis
    unfolding calculate_statistics_record[OF record_table_journal_example] cols
      derived_means_journal_example st journal_result_def by simp
qed

lemma struggling_journal_result:
  "get_struggling_students stable_argsort journal_result =
     Inr ([(Uchenik, StrCol [''Uchenik_2'']),
           (''Matematika'', NumCol [Some 3]),
           (''Fizika'', NumCol [Some 2]),
           (Sredniy_ball, NumCol [Some (5 / 2)]),
           (Status, StrCol [Troechnik])], journal_result)"
proof -
  let ?low = "[(Uchenik, StrCol [''Uchenik_2'']),
           (''Matematika'', NumCol [Some 3]),
           (''Fizika'', NumCol [Some 2]),
           (Sredniy_ball, NumCol [Some (5 / 2)]),
           (Status, StrCol [Troechnik])]"
  have m: "boolean_mask (map (\<lambda>x. num_lt x 3.5) [Some (9 / 2), Some (5 / 2), Some (7 / 2)]) journal_result = ?low"
    by (simp add: boolean_mask_def num_lt_def frame_take_def journal_result_def journal_example_def
        frame_len_def upt_rec)
  have g: "getitem ?low Sredniy_ball = Inr (NumCol [Some (5 / 2)])"
    by (simp add: getitem_def literal_defs)
  have n: "nargsort stable_argsort True [Some (5 / 2)] = [0]"
    by (simp add: nargsort_def stable_argsort_def Let_def del: not_None_eq)
  have s: "sort_values stable_argsort ?low Sredniy_ball True = Inr ?low"
    by (simp add: sort_values_def g n frame_take_def)
  show ?thesis
    unfolding get_struggling_students_def getitem_journal_result
    by (simp only: ebind_Inr as_numeric.simps m s)
qed

text \<open>
  The journal example ranked with numpy's quicksort: three rows are sorted by insertion.
\<close>

lemma npy_argsort_journal_result: "npy_argsort [7 / 2, 5 / 2, 9 / 2] = [Suc 0, 0, 2]"
  by code_simp

lemma sorts_positions_journal_result:
  "sorts_positions npy_argsort (rev (dropna [Some (9 / 2), Some (5 / 2), Some (7 / 2)]))"
  by (simp add: sorts_positions_def dropna_def npy_argsort_journal_result upt_rec)

lemma nargsort_npy_journal_result:
  "nargsort npy_argsort False [Some (9 / 2), Some (5 / 2), Some (7 / 2)] = [0, 2, Suc 0]"
  by (simp add: nargsort_def Let_def upt_rec npy_argsort_journal_result del: not_None_eq)

lemma top2_npy_journal_result: "get_top_students npy_argsort journal_result 2 =
   Inr ([(Uchenik, StrCol [''Uchenik_1'', ''Uchenik_3'']),
         (''Matematika'', NumCol [Some 5, Some 4]),
         (''Fizika'', NumCol [Some 4, Some 3]),
         (Sredniy_ball, NumCol [Some (9 / 2), Some (7 / 2)]),
         (Status, StrCol [Otlichnik, Horoshist])], journal_result)"
proof -
  have "frame_take (take 2 [0, 2, Suc 0]) journal_result =
     [(Uchenik, StrCol [''Uchenik_1'', ''Uchenik_3'']),
         (''Matematika'', NumCol [Some 5, Some 4]),
         (''Fizika'', NumCol [Some 4, Some 3]),
         (Sredniy_ball, NumCol [Some (9 / 2), Some (7 / 2)]),
         (Status, StrCol [Otlichnik, Horoshist])]"
    by (simp add: frame_take_def journal_result_def journal_example_def)
  then show ?thesis
    using get_top_students_eq[OF getitem_journal_result, of npy_argsort 2,
        unfolded nargsort_npy_journal_result]
    by simp
qed

theorem get_top_students_sorted_prefix_witness:
  "sorts_positions npy_argsort (rev (dropna [Some (9 / 2), Some (5 / 2), Some (7 / 2)])) \<and>
   wf_frame journal_result \<and>
   getitem journal_result Sredniy_ball = Inr (NumCol [Some (9 / 2), Some (5 / 2), Some (7 / 2)]) \<and>
   get_top_students npy_argsort journal_result 2 =
     Inr ([(Uchenik, StrCol [''Uchenik_1'', ''Uchenik_3'']),
           (''Matematika'', NumCol [Some 5, Some 4]),
           (''Fizika'', NumCol [Some 4, Some 3]),
           (Sredniy_ball, NumCol [Some (9 / 2), Some (7 / 2)]),
           (Status, StrCol [Otlichnik, Horoshist])], journal_result) \<and>
   (\<exists>p. get_top_students npy_argsort journal_result (int 2) =
          Inr (frame_take (take 2 p) journal_result, journal_result) \<and>
        mset p = mset [0..<frame_len journal_result] \<and>
        sorted_wrt desc_order (map (\<lambda>i. [Some (9 / 2), Some (5 / 2), Some (7 / 2)] ! i) p))"
  using get_top_students_sorted_prefix[OF sorts_positions_journal_result wf_journal_result
      getitem_journal_result, of 2]
    sorts_positions_journal_result wf_journal_result getitem_journal_result
    top2_npy_journal_result
  by blast

text \<open>
  The claim as stated asks for a stable sort. The source does not request one, and the
  quicksort of numpy is not stable once a partition is split: it splits the eighteen
  equal means of the table below around their middle and exchanges positions on both
  sides of it. The three students ranked first are then the first, the second and the
  seventeenth of the table, although the third has the same mean and stands before the
  seventeenth.
\<close>

lemma nargsort_tie_example:
  "nargsort npy_argsort False tie_means
     = [0, 1, 16, 15, 14, 13, 12, 11, 10, 9, 8, 7, 6, 5, 4, 3, 2, 17]"
  by code_simp

lemma getitem_tie_example:
  "getitem tie_example Sredniy_ball = Inr (NumCol tie_means)"
  "getitem tie_example Uchenik = Inr (StrCol tie_names)"
  by (simp_all add: getitem_def tie_example_def literal_defs)

lemma top3_tie_example: "get_top_students npy_argsort tie_example 3 =
   Inr ([(Uchenik, StrCol [''U01'', ''U02'', ''U17'']),
         (''Matematika'', NumCol [Some 4, Some 4, Some 4]),
         (Sredniy_ball, NumCol [Some 4, Some 4, Some 4]),
         (Status, StrCol [Horoshist, Horoshist, Horoshist])], tie_example)"
proof -
  have "frame_take (take 3 [0, 1, 16, 15, 14, 13, 12, 11, 10, 9, 8, 7, 6, 5, 4, 3, 2, 17])
          tie_example =
     [(Uchenik, StrCol [''U01'', ''U02'', ''U17'']),
         (''Matematika'', NumCol [Some 4, Some 4, Some 4]),
         (Sredniy_ball, NumCol [Some 4, Some 4, Some 4]),
         (Status, StrCol [Horoshist, Horoshist, Horoshist])]"
    by (simp add: frame_take_def tie_example_def tie_names_def tie_means_def)
  then show ?thesis
    using get_top_students_eq[OF getitem_tie_example(1), of npy_argsort 3,
        unfolded nargsort_tie_example]
    by simp
qed

theorem get_top_students_not_stable:
  "getitem tie_example Uchenik =
     Inr (StrCol [''U01'', ''U02'', ''U03'', ''U04'', ''U05'', ''U06'', ''U07'', ''U08'', ''U09'',
                  ''U10'', ''U11'', ''U12'', ''U13'', ''U14'', ''U15'', ''U16'', ''U17'', ''U18'']) \<and>
   getitem tie_example Sredniy_ball = Inr (NumCol (replicate 18 (Some 4))) \<and>
   get_top_students npy_argsort tie_example 3 =
     Inr ([(Uchenik, StrCol [''U01'', ''U02'', ''U17'']),
           (''Matematika'', NumCol [Some 4, Some 4, Some 4]),
           (Sredniy_ball, NumCol [Some 4, Some 4, Some 4]),
           (Status, StrCol [Horoshist, Horoshist, Horoshist])], tie_example)"
proof -
  have "tie_means = replicate 18 (Some 4)"
    by (simp add: tie_means_def numeral_eq_Suc)
  then show ?thesis
    using getitem_tie_example top3_tie_example by (simp add: tie_names_def)
qed

subsection \<open>What the aggregation leaves unchanged\<close>

lemma calculate_statistics_setitem:
  assumes "calculate_statistics (Some df) = Inr (Some df', cols)"
  shows "\<exists>a. df' = setitem (setitem df Sredniy_ball (NumCol a)) Status (StrCol (map get_status a))
             \<and> length a = frame_len df"
proof -
  from assms obtain xss where
    "df' = setitem (setitem df Sredniy_ball
                   (NumCol (map (num_round 2) (mean_axis1 (frame_len df) xss))))
                 Status
                 (StrCol (map get_status (map (num_round 2) (mean_axis1 (frame_len df) xss))))"
    by (auto simp: calculate_statistics_def Let_def ebind_def getitem_setitem_same
        split: sum.splits)
  then show ?thesis
    by (intro exI[of _ "map (num_round 2) (mean_axis1 (frame_len df) xss)"])
      (simp add: mean_axis1_def)
qed

lemma calculate_statistics_other_columns:
  assumes "calculate_statistics (Some df) = Inr (Some df', cols)"
  shows "filter (\<lambda>(k, c). k \<noteq> Sredniy_ball \<and> k \<noteq> Status) df'
           = filter (\<lambda>(k, c). k \<noteq> Sredniy_ball \<and> k \<noteq> Status) df"
proof -
  obtain a where "df' = setitem (setitem df Sredniy_ball (NumCol a)) Status
                          (StrCol (map get_status a))"
    using calculate_statistics_setitem[OF assms] by blast
  then show ?thesis by (simp add: filter_setitem)
qed

lemma calculate_statistics_frame_len:
  assumes "calculate_statistics (Some df) = Inr (Some df', cols)"
  shows "frame_len df' = frame_len df"
proof -
  obtain a where d: "df' = setitem (setitem df Sredniy_ball (NumCol a)) Status
                          (StrCol (map get_status a))"
    and la: "length a = frame_len df"
    using calculate_statistics_setitem[OF assms] by blast
  have "frame_len (setitem df Sredniy_ball (NumCol a)) = frame_len df"
    by (rule frame_len_setitem) (simp add: la)
  then show ?thesis
    unfolding d by (intro trans[OF frame_len_setitem]) (simp_all add: la)
qed

text \<open>
  Claim C3. Whenever \<open>calculate_statistics\<close> returns, the columns of the table other than
  the two derived fields are as before, names, values and order, and so is the number of
  rows. On a record table, where the derived fields are new, the result is the table
  with two columns appended, the derived mean and the status. The two ranking queries
  leave the table they are applied to as it was.
\<close>

theorem aggregator_frame:
  "(calculate_statistics (Some df0) = Inr (Some df1, cols) \<longrightarrow>
      filter (\<lambda>(k, c). k \<noteq> Sredniy_ball \<and> k \<noteq> Status) df1
        = filter (\<lambda>(k, c). k \<noteq> Sredniy_ball \<and> k \<noteq> Status) df0 \<and>
      frame_len df1 = frame_len df0) \<and>
   (record_table df \<longrightarrow>
      (\<exists>avg st. calculate_statistics (Some df) =
          Inr (Some (df @ [(Sredniy_ball, NumCol avg), (Status, StrCol st)]),
               Some (filter (\<lambda>col. col \<noteq> Uchenik) (columns df))) \<and>
        length avg = frame_len df \<and> length st = frame_len df)) \<and>
   (get_top_students argsort t n = Inr (best, t') \<longrightarrow> t' = t) \<and>
   (get_struggling_students argsort t = Inr (low, t'') \<longrightarrow> t'' = t)"
proof (intro conjI impI)
  assume "calculate_statistics (Some df0) = Inr (Some df1, cols)"
  then show "filter (\<lambda>(k, c). k \<noteq> Sredniy_ball \<and> k \<noteq> Status) df1
        = filter (\<lambda>(k, c). k \<noteq> Sredniy_ball \<and> k \<noteq> Status) df0"
    by (rule calculate_statistics_other_columns)
next
  assume "calculate_statistics (Some df0) = Inr (Some df1, cols)"
  then show "frame_len df1 = frame_len df0"
    by (rule calculate_statistics_frame_len)
next
  assume "record_table df"
  from calculate_statistics_record[OF this]
  show "\<exists>avg st. calculate_statistics (Some df) =
          Inr (Some (df @ [(Sredniy_ball, NumCol avg), (Status, StrCol st)]),
               Some (filter (\<lambda>col. col \<noteq> Uchenik) (columns df))) \<and>
        length avg = frame_len df \<and> length st = frame_len df"
    by (auto simp: derived_means_def)
next
  assume "get_top_students argsort t n = Inr (best, t')"
  then show "t' = t"
    by (auto simp: get_top_students_def ebind_def split: sum.splits)
next
  assume "get_struggling_students argsort t = Inr (low, t'')"
  then show "t'' = t"
    by (auto simp: get_struggling_students_def ebind_def split: sum.splits)
qed

theorem aggregator_frame_witness:
  "record_table journal_example \<and>
   calculate_statistics (Some journal_example) =
     Inr (Some journal_result, Some [''Matematika'', ''Fizika'']) \<and>
   journal_result =
     journal_example @
       [(Sredniy_ball, NumCol [Some (9 / 2), Some (5 / 2), Some (7 / 2)]),
        (Status, StrCol [Otlichnik, Troechnik, Horoshist])] \<and>
   filter (\<lambda>(k, c). k \<noteq> Sredniy_ball \<and> k \<noteq> Status) journal_result
     = filter (\<lambda>(k, c). k \<noteq> Sredniy_ball \<and> k \<noteq> Status) journal_example \<and>
   frame_len journal_result = frame_len journal_example \<and>
   (\<exists>best. get_top_students stable_argsort journal_result 2 = Inr (best, journal_result)) \<and>
   (\<exists>low. get_struggling_students stable_argsort journal_result = Inr (low, journal_result))"
proof -
  obtain best t' where a: "get_top_students stable_argsort journal_result 2 = Inr (best, t')"
    using top2_journal_result by blast
  obtain low t'' where b: "get_struggling_students stable_argsort journal_result = Inr (low, t'')"
    using struggling_journal_result by blast
  note c = calculate_statistics_journal_example
  note f = aggregator_frame[where ?df0.0 = journal_example and ?df1.0 = journal_result
      and cols = "Some [''Matematika'', ''Fizika'']" and df = journal_example
      and argsort = stable_argsort and t = journal_result and n = 2
      and best = best and t' = t' and low = low and t'' = t'']
  have u: "filter (\<lambda>(k, c). k \<noteq> Sredniy_ball \<and> k \<noteq> Status) journal_result
     = filter (\<lambda>(k, c). k \<noteq> Sredniy_ball \<and> k \<noteq> Status) journal_example"
    and l: "frame_len journal_result = frame_len journal_example"
    using f c by blast+
  have "t' = journal_result" "t'' = journal_result"
    using f a b by blast+
  then show ?thesis
    using a b c u l record_table_journal_example journal_result_def by blast
qed

subsection \<open>Class statistics\<close>

lemma value_items_snd: "map snd (value_items df) = value_columns df"
  by (induction df rule: value_items.induct) auto

lemma value_items_fst:
  "list_all (\<lambda>(k, c). k = Uchenik \<or> is_numeric c) df \<Longrightarrow>
   map fst (value_items df) = filter (\<lambda>col. col \<noteq> Uchenik) (map fst df)"
  by (induction df rule: value_items.induct) auto

lemma value_items_mem: "(k, xs) \<in> set (value_items df) \<Longrightarrow> (k, NumCol xs) \<in> set df"
  by (induction df rule: value_items.induct) (auto split: if_splits)

lemma subject_stats_loop_items:
  "\<forall>(k, xs) \<in> set items. getitem df k = Inr (NumCol xs) \<and> dropna xs \<noteq> [] \<Longrightarrow>
   subject_stats_loop df (map fst items)
     = Inr (map (\<lambda>(k, xs). (k, subject_stat_of xs)) items)"
  by (induction items)
    (auto simp: subject_stat_of_def scalar_round_def num_round_def nanmean_def Let_def)

lemma dropna_map_Some [simp]: "dropna (map Some ys) = ys"
  by (induction ys) (simp_all add: dropna_def)

lemma fold_min_Min: "fold min vs (v::real) = Min (set (v # vs))"
  by (rule Min.set_eq_fold[symmetric])

lemma fold_max_Max: "fold max vs (v::real) = Max (set (v # vs))"
  by (rule Max.set_eq_fold[symmetric])

lemma nan_reductions_complete:
  assumes "ys \<noteq> []"
  shows "nanmean (map Some ys) = Some (sum_list ys / real (length ys))"
    and "nanmin (map Some ys) = Some (Min (set ys))"
    and "nanmax (map Some ys) = Some (Max (set ys))"
proof -
  show "nanmean (map Some ys) = Some (sum_list ys / real (length ys))"
    using assms by (simp add: nanmean_def)
  obtain v vs where ys: "ys = v # vs" using assms by (cases ys) auto
  show "nanmin (map Some ys) = Some (Min (set ys))"
    unfolding nanmin_def dropna_map_Some ys using fold_min_Min[of vs v] by simp
  show "nanmax (map Some ys) = Some (Max (set ys))"
    unfolding nanmax_def dropna_map_Some ys using fold_max_Max[of vs v] by simp
qed

lemma complete_column:
  assumes "None \<notin> set xs"
  shows "\<exists>ys. xs = map Some ys"
proof -
  have "xs = map Some (map the xs)"
    using assms by (induction xs) auto
  then show ?thesis ..
qed

lemma frame_len_append: "df \<noteq> [] \<Longrightarrow> frame_len (df @ extra) = frame_len df"
  by (cases df) (auto simp: frame_len_def)

lemma record_table_value_length:
  assumes "record_table df" and "(k, xs) \<in> set (value_items df)"
  shows "length xs = frame_len df"
proof -
  have "(k, NumCol xs) \<in> set df" using assms(2) by (rule value_items_mem)
  then have "col_len (NumCol xs) = frame_len df"
    using assms(1) by (auto simp: record_table_def numeric_table_def wf_frame_def list_all_iff)
  then show ?thesis by simp
qed

lemma record_table_getitem_result:
  assumes "record_table df" and "(k, xs) \<in> set (value_items df)"
  shows "getitem (df @ [(Sredniy_ball, a), (Status, b)]) k = Inr (NumCol xs)"
proof -
  have "distinct (map fst (df @ [(Sredniy_ball, a), (Status, b)]))"
    using assms(1) by (auto simp: record_table_def numeric_table_def wf_frame_def columns_def literal_defs)
  moreover have "(k, NumCol xs) \<in> set (df @ [(Sredniy_ball, a), (Status, b)])"
    using value_items_mem[OF assms(2)] by simp
  ultimately show ?thesis by (rule getitem_mem)
qed

lemma row_scores_complete:
  assumes "record_table df" and "i < frame_len df" and "value_columns df \<noteq> []"
    and "list_all (\<lambda>xs. None \<notin> set xs) (value_columns df)"
  shows "row_scores df i \<noteq> []"
proof -
  have "xs ! i \<noteq> None" if "xs \<in> set (value_columns df)" for xs
  proof -
    have "xs \<in> snd ` set (value_items df)"
      using that value_items_snd[of df] by (metis set_map)
    then obtain k where "(k, xs) \<in> set (value_items df)" by auto
    then have "length xs = frame_len df" using record_table_value_length[OF assms(1)] by simp
    then have "xs ! i \<in> set xs" using assms(2) by simp
    moreover have "None \<notin> set xs" using assms(4) that by (simp add: list_all_iff)
    ultimately show ?thesis by metis
  qed
  then have "map (\<lambda>xs. xs ! i) (value_columns df)
      = map Some (map (\<lambda>xs. the (xs ! i)) (value_columns df))"
    by auto
  then have "row_scores df i = map (\<lambda>xs. the (xs ! i)) (value_columns df)"
    unfolding row_scores_def by (simp only: dropna_map_Some)
  then show ?thesis using assms(3) by simp
qed

lemma derived_means_complete:
  assumes "record_table df" and "value_columns df \<noteq> []"
    and "list_all (\<lambda>xs. None \<notin> set xs) (value_columns df)"
  shows "derived_means df =
    map Some (map (\<lambda>i. round_dec 2 (sum_list (row_scores df i) / real (length (row_scores df i))))
               [0..<frame_len df])"
  using row_scores_complete[OF assms(1) _ assms(2,3)]
  by (simp add: derived_means_def row_mean_def)

lemma nanmedian_complete:
  "ms \<noteq> [] \<Longrightarrow> nanmedian (map Some ms) =
     Some (let s = sort ms; n = length s
           in if odd n then s ! (n div 2) else (s ! (n div 2 - 1) + s ! (n div 2)) / 2)"
proof -
  assume "ms \<noteq> []"
  then have "sort ms \<noteq> []" by (metis length_sort length_0_conv)
  then show ?thesis by (simp add: nanmedian_def Let_def)
qed

lemma nanstd_complete:
  "nanstd (map Some ms) =
     (if length ms \<le> 1 then None
      else Some (sqrt (sum_list (map (\<lambda>x. (x - sum_list ms / real (length ms))\<^sup>2) ms)
                        / real (length ms - 1))))"
  by (simp add: nanstd_def Let_def)

lemma subject_stat_complete:
  assumes "ys \<noteq> []"
  shows "subj_mean (subject_stat_of (map Some ys)) = Some (round_dec 2 (sum_list ys / real (length ys)))"
    and "subj_min (subject_stat_of (map Some ys)) = Some (Min (set ys))"
    and "subj_max (subject_stat_of (map Some ys)) = Some (Max (set ys))"
  using nan_reductions_complete[OF assms] by (simp_all add: subject_stat_of_def num_round_def)

lemma getitem_result_fields:
  assumes "Sredniy_ball \<notin> set (map fst df)" and "Status \<notin> set (map fst df)"
  shows "getitem (df @ [(Sredniy_ball, a), (Status, b)]) Sredniy_ball = Inr a"
    and "getitem (df @ [(Sredniy_ball, a), (Status, b)]) Status = Inr b"
proof -
  have ne: "Status \<noteq> Sredniy_ball" by (simp add: literal_defs)
  show "getitem (df @ [(Sredniy_ball, a), (Status, b)]) Sredniy_ball = Inr a"
    using getitem_append_old[of Sredniy_ball Status "df @ [(Sredniy_ball, a)]" b]
      getitem_append_fresh[OF assms(1)] ne by simp
  have "Status \<notin> set (map fst (df @ [(Sredniy_ball, a)]))" using assms(2) ne by simp
  from getitem_append_fresh[OF this]
  show "getitem (df @ [(Sredniy_ball, a), (Status, b)]) Status = Inr b" by simp
qed

text \<open>
  Claim C4. Take a record table with at least one row and at least one value-bearing
  column, no cell of which is NaN, and run \<open>calculate_statistics\<close> on it. Then
  \<open>get_class_statistics\<close> succeeds. It has one entry per value-bearing column, in
  order, holding the mean of the column rounded to two decimals and the exact least and
  greatest value of the column. The class-wide figures are taken over the derived means
  of the rows: their mean, their median and their standard deviation, each rounded to two
  decimals, and their exact least and greatest value. The standard deviation divides the
  sum of squared deviations by the number of rows less one, and is NaN for a single row.
\<close>

theorem get_class_statistics_values:
  assumes rt: "record_table df" and ne: "0 < frame_len df"
    and vc: "value_columns df \<noteq> []"
    and cp: "list_all (\<lambda>xs. None \<notin> set xs) (value_columns df)"
  shows "\<exists>df' cols st ss ms.
     calculate_statistics (Some df) = Inr (Some df', Some cols) \<and>
     get_class_statistics (Some df') cols = Inr (Some (st, ss)) \<and>
     map fst ss = cols \<and>
     (\<forall>j < length cols. \<exists>ys.
         getitem df (cols ! j) = Inr (NumCol (map Some ys)) \<and> ys \<noteq> [] \<and>
         subj_mean (snd (ss ! j)) = Some (round_dec 2 (sum_list ys / real (length ys))) \<and>
         subj_min (snd (ss ! j)) = Some (Min (set ys)) \<and>
         subj_max (snd (ss ! j)) = Some (Max (set ys))) \<and>
     getitem df' Sredniy_ball = Inr (NumCol (map Some ms)) \<and> length ms = frame_len df \<and>
     total_students st = frame_len df \<and>
     class_average st = Some (round_dec 2 (sum_list ms / real (length ms))) \<and>
     class_median st =
       Some (round_dec 2 (let s = sort ms; n = length s
                          in if odd n then s ! (n div 2)
                             else (s ! (n div 2 - 1) + s ! (n div 2)) / 2)) \<and>
     class_std st =
       (if length ms \<le> 1 then None
        else Some (round_dec 2
               (sqrt (sum_list (map (\<lambda>x. (x - sum_list ms / real (length ms))\<^sup>2) ms)
                        / real (length ms - 1))))) \<and>
     class_min st = Some (Min (set ms)) \<and> class_max st = Some (Max (set ms))"
proof -
  define items where "items = value_items df"
  define cols where "cols = filter (\<lambda>col. col \<noteq> Uchenik) (columns df)"
  define ms where "ms = map (\<lambda>i. round_dec 2 (sum_list (row_scores df i)
                                  / real (length (row_scores df i)))) [0..<frame_len df]"
  define stc where "stc = StrCol (map get_status (map Some ms))"
  define df' where "df' = df @ [(Sredniy_ball, NumCol (map Some ms)), (Status, stc)]"
  define ss where "ss = map (\<lambda>(k, xs). (k, subject_stat_of xs)) items"
  define st where "st =
     \<lparr>total_students = frame_len df',
      class_average = Some (round_dec 2 (sum_list ms / real (length ms))),
      class_median = Some (round_dec 2 (let s = sort ms; n = length s
                          in if odd n then s ! (n div 2)
                             else (s ! (n div 2 - 1) + s ! (n div 2)) / 2)),
      class_std = num_round 2 (nanstd (map Some ms)),
      class_min = nanmin (map Some ms),
      class_max = nanmax (map Some ms),
      excellent = count_eq stc Otlichnik,
      good = count_eq stc Horoshist,
      satisfactory = count_eq stc Troechnik,
      attention_needed = count_eq stc Trebuet_vnimaniya\<rparr>"
  have fresh: "Sredniy_ball \<notin> set (map fst df)" "Status \<notin> set (map fst df)"
    using rt by (simp_all add: record_table_def numeric_table_def columns_def)
  have dist: "distinct (map fst df)"
    using rt by (simp add: record_table_def numeric_table_def wf_frame_def columns_def)
  have cols_items: "cols = map fst items"
    using rt value_items_fst[of df]
    by (simp add: cols_def items_def columns_def record_table_def numeric_table_def)
  have dm: "derived_means df = map Some ms"
    unfolding ms_def by (rule derived_means_complete[OF rt vc cp])
  have calc: "calculate_statistics (Some df) = Inr (Some df', Some cols)"
    using calculate_statistics_record[OF rt] by (simp add: dm df'_def cols_def stc_def)
  have g1: "getitem df' Sredniy_ball = Inr (NumCol (map Some ms))"
    and g2: "getitem df' Status = Inr stc"
    unfolding df'_def using getitem_result_fields[OF fresh] by simp_all
  have item_ok: "\<exists>ys. xs = map Some ys \<and> ys \<noteq> []" if "(k, xs) \<in> set (value_items df)" for k xs
  proof -
    have "xs \<in> set (value_columns df)"
      using that value_items_snd[of df] by (metis set_map image_eqI snd_conv)
    then have "None \<notin> set xs" using cp by (simp add: list_all_iff)
    then obtain ys where ys: "xs = map Some ys" using complete_column by blast
    have "length xs = frame_len df" by (rule record_table_value_length[OF rt that])
    then have "ys \<noteq> []" using ne ys by auto
    then show ?thesis using ys by blast
  qed
  have loop: "subject_stats_loop df' cols = Inr ss"
    unfolding cols_items ss_def df'_def
  proof (rule subject_stats_loop_items, clarify)
    fix k xs assume m: "(k, xs) \<in> set items"
    then have "(k, xs) \<in> set (value_items df)" by (simp add: items_def)
    then show "getitem (df @ [(Sredniy_ball, NumCol (map Some ms)), (Status, stc)]) k
                 = Inr (NumCol xs) \<and> dropna xs \<noteq> []"
      using record_table_getitem_result[OF rt] item_ok by fastforce
  qed
  have lms: "length ms = frame_len df" by (simp add: ms_def)
  then have msne: "ms \<noteq> []" using ne by auto
  have gcs: "get_class_statistics (Some df') cols = Inr (Some (st, ss))"
    by (simp add: get_class_statistics_def g1 g2 loop st_def scalar_round_def
        nan_reductions_complete(1)[OF msne] nanmedian_complete[OF msne])
  have dfne: "df \<noteq> []" using ne by (auto simp: frame_len_def)
  have total: "total_students st = frame_len df"
    by (simp add: st_def df'_def frame_len_append[OF dfne])
  have avg: "class_average st = Some (round_dec 2 (sum_list ms / real (length ms)))"
    and mn: "class_min st = Some (Min (set ms))" and mx: "class_max st = Some (Max (set ms))"
    using nan_reductions_complete[OF msne] by (simp_all add: st_def)
  have med: "class_median st =
       Some (round_dec 2 (let s = sort ms; n = length s
                          in if odd n then s ! (n div 2)
                             else (s ! (n div 2 - 1) + s ! (n div 2)) / 2))"
    by (simp add: st_def)
  have std: "class_std st =
       (if length ms \<le> 1 then None
        else Some (round_dec 2
               (sqrt (sum_list (map (\<lambda>x. (x - sum_list ms / real (length ms))\<^sup>2) ms)
                        / real (length ms - 1)))))"
    by (simp add: st_def num_round_def nanstd_complete)
  have fst_ss: "map fst ss = cols"
    by (simp add: ss_def cols_items case_prod_unfold comp_def)
  have subj: "\<forall>j < length cols. \<exists>ys.
         getitem df (cols ! j) = Inr (NumCol (map Some ys)) \<and> ys \<noteq> [] \<and>
         subj_mean (snd (ss ! j)) = Some (round_dec 2 (sum_list ys / real (length ys))) \<and>
         subj_min (snd (ss ! j)) = Some (Min (set ys)) \<and>
         subj_max (snd (ss ! j)) = Some (Max (set ys))"
  proof (intro allI impI)
    fix j assume j: "j < length cols"
    then have jl: "j < length items" by (simp add: cols_items)
    obtain k xs where it: "items ! j = (k, xs)" by (cases "items ! j")
    have mem: "(k, xs) \<in> set (value_items df)"
      using jl it unfolding items_def by (metis nth_mem)
    have ck: "cols ! j = k" using jl it by (simp add: cols_items)
    have sj: "snd (ss ! j) = subject_stat_of xs" using jl it by (simp add: ss_def)
    obtain ys where ys: "xs = map Some ys" and ysne: "ys \<noteq> []"
      using item_ok[OF mem] by blast
    have gi: "getitem df k = Inr (NumCol xs)"
      using getitem_mem[OF dist value_items_mem[OF mem]] .
    show "\<exists>ys. getitem df (cols ! j) = Inr (NumCol (map Some ys)) \<and> ys \<noteq> [] \<and>
         subj_mean (snd (ss ! j)) = Some (round_dec 2 (sum_list ys / real (length ys))) \<and>
         subj_min (snd (ss ! j)) = Some (Min (set ys)) \<and>
         subj_max (snd (ss ! j)) = Some (Max (set ys))"
      using gi ysne subject_stat_complete[OF ysne] unfolding ck sj ys by blast
  qed
  show ?thesis
    using calc gcs fst_ss subj g1 lms total avg med std mn mx by blast
qed

lemma journal_example_complete:
  "0 < frame_len journal_example" "value_columns journal_example \<noteq> []"
  "list_all (\<lambda>xs. None \<notin> set xs) (value_columns journal_example)"
proof -
  show "0 < frame_len journal_example" by (simp add: frame_len_journal_example)
  show "value_columns journal_example \<noteq> []"
    "list_all (\<lambda>xs. None \<notin> set xs) (value_columns journal_example)"
    by (simp_all add: journal_example_def literal_defs)
qed

lemma getitem_journal_example_Matematika:
  "getitem journal_example ''Matematika'' = Inr (NumCol [Some 5, Some 3, Some 4])"
  by (simp add: getitem_def journal_example_def literal_defs)

lemma round_dec_2_more: "round_dec 2 4 = 4" "round_dec 2 1 = 1"
  by (simp_all add: round_dec_def rint_def Let_def)

theorem get_class_statistics_values_witness:
  "record_table journal_example \<and> 0 < frame_len journal_example \<and>
   value_columns journal_example \<noteq> [] \<and>
   list_all (\<lambda>xs. None \<notin> set xs) (value_columns journal_example) \<and>
   (\<exists>st ss.
      get_class_statistics (Some journal_result) [''Matematika'', ''Fizika''] = Inr (Some (st, ss)) \<and>
      map fst ss = [''Matematika'', ''Fizika''] \<and>
      subj_mean (snd (ss ! 0)) = Some 4 \<and> subj_min (snd (ss ! 0)) = Some 3 \<and>
      subj_max (snd (ss ! 0)) = Some 5 \<and>
      total_students st = 3 \<and>
      class_average st = Some (7 / 2) \<and> class_median st = Some (7 / 2) \<and>
      class_std st = Some 1 \<and> class_min st = Some (5 / 2) \<and> class_max st = Some (9 / 2))"
proof -
  from get_class_statistics_values[OF record_table_journal_example journal_example_complete]
  obtain df' cols st ss ms where
    calc: "calculate_statistics (Some journal_example) = Inr (Some df', Some cols)"
    and gcs: "get_class_statistics (Some df') cols = Inr (Some (st, ss))"
    and fst_ss: "map fst ss = cols"
    and subj: "\<forall>j < length cols. \<exists>ys.
         getitem journal_example (cols ! j) = Inr (NumCol (map Some ys)) \<and> ys \<noteq> [] \<and>
         subj_mean (snd (ss ! j)) = Some (round_dec 2 (sum_list ys / real (length ys))) \<and>
         subj_min (snd (ss ! j)) = Some (Min (set ys)) \<and>
         subj_max (snd (ss ! j)) = Some (Max (set ys))"
    and g: "getitem df' Sredniy_ball = Inr (NumCol (map Some ms))"
    and total: "total_students st = frame_len journal_example"
    and avg: "class_average st = Some (round_dec 2 (sum_list ms / real (length ms)))"
    and med: "class_median st =
       Some (round_dec 2 (let s = sort ms; n = length s
                          in if odd n then s ! (n div 2)
                             else (s ! (n div 2 - 1) + s ! (n div 2)) / 2))"
    and std: "class_std st =
       (if length ms \<le> 1 then None
        else Some (round_dec 2
               (sqrt (sum_list (map (\<lambda>x. (x - sum_list ms / real (length ms))\<^sup>2) ms)
                        / real (length ms - 1)))))"
    and mn: "class_min st = Some (Min (set ms))" and mx: "class_max st = Some (Max (set ms))"
    by blast
  have df': "df' = journal_result" and cols: "cols = [''Matematika'', ''Fizika'']"
    using calc calculate_statistics_journal_example by simp_all
  have ms: "ms = [9 / 2, 5 / 2, 7 / 2]"
  proof -
    have "map Some ms = [Some (9 / 2), Some (5 / 2), Some (7 / 2)]"
      using g getitem_journal_result unfolding df' by simp
    then show ?thesis by auto
  qed
  have a: "class_average st = Some (7 / 2)"
    using avg by (simp add: ms round_dec_2_examples)
  have m: "class_median st = Some (7 / 2)"
    using med by (simp add: ms round_dec_2_examples)
  have s: "class_std st = Some 1"
    using std by (simp add: ms power2_eq_square round_dec_2_more)
  have lo: "class_min st = Some (5 / 2)" and hi: "class_max st = Some (9 / 2)"
    using mn mx by (simp_all add: ms)
  obtain ys where
    y: "getitem journal_example (cols ! 0) = Inr (NumCol (map Some ys))"
    and s0: "subj_mean (snd (ss ! 0)) = Some (round_dec 2 (sum_list ys / real (length ys)))"
      "subj_min (snd (ss ! 0)) = Some (Min (set ys))"
      "subj_max (snd (ss ! 0)) = Some (Max (set ys))"
    using subj cols by force
  have ys: "ys = [5, 3, 4]"
  proof -
    have "map Some ys = [Some 5, Some 3, Some 4]"
      using y getitem_journal_example_Matematika by (simp add: cols)
    then show ?thesis by auto
  qed
  have s0': "subj_mean (snd (ss ! 0)) = Some 4" "subj_min (snd (ss ! 0)) = Some 3"
    "subj_max (snd (ss ! 0)) = Some 5"
    using s0 by (simp_all add: ys round_dec_2_more)
  have t: "total_students st = 3" using total by (simp add: frame_len_journal_example)
  have "get_class_statistics (Some journal_result) [''Matematika'', ''Fizika''] = Inr (Some (st, ss)) \<and>
      map fst ss = [''Matematika'', ''Fizika''] \<and>
      subj_mean (snd (ss ! 0)) = Some 4 \<and> subj_min (snd (ss ! 0)) = Some 3 \<and>
      subj_max (snd (ss ! 0)) = Some 5 \<and>
      total_students st = 3 \<and>
      class_average st = Some (7 / 2) \<and> class_median st = Some (7 / 2) \<and>
      class_std st = Some 1 \<and> class_min st = Some (5 / 2) \<and> class_max st = Some (9 / 2)"
    using gcs fst_ss s0' t a m s lo hi unfolding df' cols by simp
  then show ?thesis
    using record_table_journal_example journal_example_complete
    by (intro conjI exI[of _ st] exI[of _ ss]) simp_all
qed

subsection \<open>The status counts\<close>

lemma status_counts_sum:
  "count_eq (StrCol (map get_status a)) Otlichnik + count_eq (StrCol (map get_status a)) Horoshist
   + count_eq (StrCol (map get_status a)) Troechnik
   + count_eq (StrCol (map get_status a)) Trebuet_vnimaniya = length a"
  by (induction a) (auto simp: get_status_def literal_defs)

lemma calculate_statistics_status_column:
  assumes "calculate_statistics (Some df) = Inr (Some df', cols)"
  shows "\<exists>a. getitem df' Status = Inr (StrCol (map get_status a)) \<and> length a = frame_len df'"
proof -
  from assms obtain xss where
    df': "df' = setitem (setitem df Sredniy_ball
                   (NumCol (map (num_round 2) (mean_axis1 (frame_len df) xss))))
                 Status
                 (StrCol (map get_status (map (num_round 2) (mean_axis1 (frame_len df) xss))))"
    by (auto simp: calculate_statistics_def Let_def ebind_def getitem_setitem_same
        split: sum.splits)
  let ?a = "map (num_round 2) (mean_axis1 (frame_len df) xss)"
  have la: "length ?a = frame_len df" by (simp add: mean_axis1_def)
  have "frame_len (setitem df Sredniy_ball (NumCol ?a)) = frame_len df"
    by (rule frame_len_setitem) (simp add: mean_axis1_def)
  then have "frame_len df' = frame_len df"
    unfolding df' by (intro trans[OF frame_len_setitem]) (simp_all add: mean_axis1_def)
  then show ?thesis
    unfolding df' by (intro exI[of _ ?a]) (simp add: getitem_setitem_same mean_axis1_def)
qed

text \<open>
  Claim C10. Whenever \<open>get_class_statistics\<close> returns on a table that
  \<open>calculate_statistics\<close> has produced, the four status counts add up to the number of
  students: every row carries exactly one of the four labels.
\<close>

theorem status_counts_partition:
  assumes "calculate_statistics (Some df) = Inr (Some df', cols)"
    and "get_class_statistics (Some df') subject_columns = Inr (Some (st, ss))"
  shows "excellent st + good st + satisfactory st + attention_needed st = total_students st"
proof -
  obtain a where g: "getitem df' Status = Inr (StrCol (map get_status a))"
    and la: "length a = frame_len df'"
    using calculate_statistics_status_column[OF assms(1)] by blast
  from assms(2) g have
    "total_students st = frame_len df'"
    "excellent st = count_eq (StrCol (map get_status a)) Otlichnik"
    "good st = count_eq (StrCol (map get_status a)) Horoshist"
    "satisfactory st = count_eq (StrCol (map get_status a)) Troechnik"
    "attention_needed st = count_eq (StrCol (map get_status a)) Trebuet_vnimaniya"
    by (auto simp: get_class_statistics_def ebind_def split: sum.splits)
  then show ?thesis using status_counts_sum[of a] la by simp
qed

lemma labels_distinct:
  "Horoshist \<noteq> Troechnik" "Horoshist \<noteq> Trebuet_vnimaniya" "Troechnik \<noteq> Trebuet_vnimaniya"
  "Otlichnik \<noteq> Trebuet_vnimaniya" "Horoshist \<noteq> Otlichnik" "Troechnik \<noteq> Otlichnik"
  by (simp_all add: literal_defs)

lemma get_class_statistics_journal_result:
  "\<exists>st ss. get_class_statistics (Some journal_result) [''Matematika'', ''Fizika'']
     = Inr (Some (st, ss)) \<and> excellent st = 1 \<and> good st = 1 \<and> satisfactory st = 1 \<and>
       attention_needed st = 0 \<and> total_students st = 3"
proof -
  have g: "getitem journal_result Status = Inr (StrCol [Otlichnik, Troechnik, Horoshist])"
    "getitem journal_result ''Matematika'' = Inr (NumCol [Some 5, Some 3, Some 4])"
    "getitem journal_result ''Fizika'' = Inr (NumCol [Some 4, Some 2, Some 3])"
    by (simp_all add: getitem_def journal_result_def journal_example_def literal_defs)
  have l: "frame_len journal_result = 3"
    by (simp add: frame_len_def journal_result_def journal_example_def)
  show ?thesis
    by (simp add: get_class_statistics_def getitem_journal_result g l labels_distinct
        labels_distinct[symmetric] scalar_round_def nanmean_def nanmedian_def dropna_def)
qed

theorem status_counts_partition_witness:
  "calculate_statistics (Some journal_example)
     = Inr (Some journal_result, Some [''Matematika'', ''Fizika'']) \<and>
   (\<exists>st ss. get_class_statistics (Some journal_result) [''Matematika'', ''Fizika'']
       = Inr (Some (st, ss)) \<and>
     excellent st = 1 \<and> good st = 1 \<and> satisfactory st = 1 \<and> attention_needed st = 0 \<and>
     excellent st + good st + satisfactory st + attention_needed st = total_students st)"
proof -
  obtain st ss where
    g: "get_class_statistics (Some journal_result) [''Matematika'', ''Fizika''] = Inr (Some (st, ss))"
    and c: "excellent st = 1" "good st = 1" "satisfactory st = 1" "attention_needed st = 0"
    using get_class_statistics_journal_result by blast
  have "excellent st + good st + satisfactory st + attention_needed st = total_students st"
    using status_counts_partition[OF calculate_statistics_journal_example g] .
  then show ?thesis
    using calculate_statistics_journal_example g c
    by (intro conjI exI[of _ st] exI[of _ ss]) simp_all
qed

subsection \<open>Pass-rates of questions\<close>

lemma nansum_binary: "binary_column xs \<Longrightarrow> nansum xs = real (count_correct xs)"
  by (induction xs) (auto simp: binary_column_def nansum_def dropna_def count_correct_def)

lemma percent_of_pos: "0 < n \<Longrightarrow> percent_of x n = Some (round_dec 1 (x / real n * 100))"
  by (simp add: percent_of_def)

lemma problem_flag_Some:
  "problem_flag (Some p) = Da \<longleftrightarrow> p < 60" "problem_flag (Some p) = Net \<longleftrightarrow> 60 \<le> p"
  by (auto simp: problem_flag_def num_lt_def literal_defs)

lemma question_col_not_derived:
  "startswith col Zadanie_prefix \<Longrightarrow> col \<noteq> Obshchiy_ball \<and> col \<noteq> Procent"
  by (auto simp: startswith_def literal_defs)

lemma numeric_columns_exists:
  assumes "\<And>name. name \<in> set names \<Longrightarrow> \<exists>xs. getitem df name = Inr (NumCol xs)"
  shows "\<exists>xss. numeric_columns df names = Inr xss"
  using assms
proof (induction names)
  case Nil
  then show ?case by simp
next
  case (Cons a names)
  obtain xs where "getitem df a = Inr (NumCol xs)" using Cons.prems by auto
  moreover obtain xss where "numeric_columns df names = Inr xss" using Cons by auto
  ultimately show ?case by simp
qed

lemma lookup_info_exists:
  "col \<in> set (map ti_Zadanie test_info_df) \<Longrightarrow> \<exists>r. lookup_info test_info_df col = Inr r"
proof -
  assume "col \<in> set (map ti_Zadanie test_info_df)"
  then have "filter (\<lambda>r. ti_Zadanie r = col) test_info_df \<noteq> []"
    by (auto simp: filter_empty_conv)
  then show ?thesis by (auto simp: lookup_info_def split: list.splits)
qed

lemma question_stats_loop_result:
  assumes "\<And>col. col \<in> set cols \<Longrightarrow>
             (\<exists>xs. getitem df col = Inr (NumCol xs)) \<and> (\<exists>r. lookup_info ti col = Inr r)"
  shows "\<exists>qs. question_stats_loop df ti cols = Inr qs \<and> map qs_Zadanie qs = cols \<and>
     (\<forall>j < length cols. \<forall>xs. getitem df (cols ! j) = Inr (NumCol xs) \<longrightarrow>
         qs_Pravilnyh_otvetov (qs ! j) = nansum xs \<and>
         qs_Procent_pravilnyh (qs ! j) = percent_of (nansum xs) (frame_len df) \<and>
         qs_Problemnoe (qs ! j) = problem_flag (qs_Procent_pravilnyh (qs ! j)))"
  using assms
proof (induction cols)
  case Nil
  then show ?case by simp
next
  case (Cons col cols)
  obtain xs r where g: "getitem df col = Inr (NumCol xs)" and l: "lookup_info ti col = Inr r"
    using Cons.prems[of col] by auto
  obtain qs where q: "question_stats_loop df ti cols = Inr qs" "map qs_Zadanie qs = cols"
    and rest: "\<forall>j < length cols. \<forall>xs. getitem df (cols ! j) = Inr (NumCol xs) \<longrightarrow>
         qs_Pravilnyh_otvetov (qs ! j) = nansum xs \<and>
         qs_Procent_pravilnyh (qs ! j) = percent_of (nansum xs) (frame_len df) \<and>
         qs_Problemnoe (qs ! j) = problem_flag (qs_Procent_pravilnyh (qs ! j))"
    using Cons by auto
  let ?q = "\<lparr>qs_Zadanie = col, qs_Tema = ti_Tema r, qs_Slozhnost = ti_Slozhnost r,
             qs_Pravilnyh_otvetov = nansum xs,
             qs_Procent_pravilnyh = percent_of (nansum xs) (frame_len df),
             qs_Problemnoe = problem_flag (percent_of (nansum xs) (frame_len df))\<rparr>"
  have e: "question_stats_loop df ti (col # cols) = Inr (?q # qs)"
    by (simp add: g l q Let_def)
  have "\<forall>j < length (col # cols). \<forall>ys. getitem df ((col # cols) ! j) = Inr (NumCol ys) \<longrightarrow>
         qs_Pravilnyh_otvetov ((?q # qs) ! j) = nansum ys \<and>
         qs_Procent_pravilnyh ((?q # qs) ! j) = percent_of (nansum ys) (frame_len df) \<and>
         qs_Problemnoe ((?q # qs) ! j) = problem_flag (qs_Procent_pravilnyh ((?q # qs) ! j))"
  proof (intro allI impI)
    fix j ys
    assume j: "j < length (col # cols)" and gy: "getitem df ((col # cols) ! j) = Inr (NumCol ys)"
    show "qs_Pravilnyh_otvetov ((?q # qs) ! j) = nansum ys \<and>
         qs_Procent_pravilnyh ((?q # qs) ! j) = percent_of (nansum ys) (frame_len df) \<and>
         qs_Problemnoe ((?q # qs) ! j) = problem_flag (qs_Procent_pravilnyh ((?q # qs) ! j))"
    proof (cases j)
      case 0
      then have "ys = xs" using gy g by simp
      then show ?thesis using 0 by simp
    next
      case (Suc i)
      then show ?thesis using rest j gy by simp
    qed
  qed
  then show ?case using e q(2) by (intro exI[of _ "?q # qs"]) simp
qed

lemma binary_results_column:
  assumes "binary_results df ti" and "col \<in> set (question_cols_of df)"
  shows "\<exists>xs. getitem df col = Inr (NumCol xs) \<and> binary_column xs \<and> length xs = frame_len df"
proof -
  have st: "startswith col Zadanie_prefix" and "col \<in> set (map fst df)"
    using assms(2) by (simp_all add: question_cols_of_def columns_def)
  then obtain c where c: "(col, c) \<in> set df" by auto
  have "case c of NumCol xs \<Rightarrow> binary_column xs | StrCol _ \<Rightarrow> False"
    using assms(1) c st by (auto simp: binary_results_def list_all_iff)
  then obtain xs where xs: "c = NumCol xs" "binary_column xs" by (cases c) auto
  have d: "distinct (map fst df)"
    using assms(1) by (simp add: binary_results_def wf_frame_def columns_def)
  have "col_len c = frame_len df"
    using assms(1) c by (auto simp: binary_results_def wf_frame_def list_all_iff)
  then show ?thesis using getitem_mem[OF d c] xs by auto
qed

text \<open>
  Claim C5. On a binary-scored results table with at least one row \<open>analyze_test_results\<close>
  succeeds and returns one statistics row per question column, in order. The pass-rate
  of a question is the percentage of rows whose value is 1, rounded to one decimal, and
  the question is marked as a problem exactly when that pass-rate is strictly below 60:
  at exactly 60 it is not.
\<close>

theorem analyze_test_results_pass_rate:
  assumes "binary_results df ti"
  shows "\<exists>df' qs ts.
     analyze_test_results df ti = Inr (df', qs, ts) \<and>
     map qs_Zadanie qs = question_cols_of df \<and>
     (\<forall>j < length qs. \<exists>xs.
        getitem df (question_cols_of df ! j) = Inr (NumCol xs) \<and> length xs = frame_len df \<and>
        qs_Procent_pravilnyh (qs ! j)
          = Some (round_dec 1 (real (count_correct xs) / real (frame_len df) * 100)) \<and>
        (qs_Problemnoe (qs ! j) = Da \<longleftrightarrow>
           round_dec 1 (real (count_correct xs) / real (frame_len df) * 100) < 60) \<and>
        (qs_Problemnoe (qs ! j) = Net \<longleftrightarrow>
           60 \<le> round_dec 1 (real (count_correct xs) / real (frame_len df) * 100)))"
proof -
  define cols where "cols = question_cols_of df"
  have pos: "0 < frame_len df" and cne: "cols \<noteq> []"
    using assms by (simp_all add: binary_results_def cols_def)
  have colg: "\<exists>xs. getitem df col = Inr (NumCol xs) \<and> binary_column xs \<and> length xs = frame_len df"
    if "col \<in> set cols" for col
    using binary_results_column[OF assms] that by (simp add: cols_def)
  obtain xss where nc: "numeric_columns df cols = Inr xss"
    using numeric_columns_exists[of cols df] colg by blast
  define df1 where "df1 = setitem df Obshchiy_ball (NumCol (sum_axis1 (frame_len df) xss))"
  define df2 where "df2 = setitem df1 Procent
      (NumCol (map (\<lambda>x. case x of None \<Rightarrow> None | Some v \<Rightarrow> percent_of v (length cols))
                 (sum_axis1 (frame_len df) xss)))"
  have l1: "frame_len df1 = frame_len df"
    unfolding df1_def by (rule frame_len_setitem) (simp add: sum_axis1_def)
  have l2: "frame_len df2 = frame_len df"
    unfolding df2_def l1[symmetric]
    by (rule frame_len_setitem) (simp add: sum_axis1_def l1)
  have g2: "getitem df2 col = getitem df col" if "col \<in> set cols" for col
  proof -
    have "startswith col Zadanie_prefix" using that by (simp add: cols_def question_cols_of_def)
    then have "col \<noteq> Obshchiy_ball" "col \<noteq> Procent" using question_col_not_derived by auto
    then show ?thesis by (simp add: df2_def df1_def getitem_setitem_other)
  qed
  have info: "\<exists>r. lookup_info ti col = Inr r" if "col \<in> set cols" for col
    using assms that by (auto simp: binary_results_def list_all_iff cols_def intro: lookup_info_exists)
  have "\<And>col. col \<in> set cols \<Longrightarrow>
             (\<exists>xs. getitem df2 col = Inr (NumCol xs)) \<and> (\<exists>r. lookup_info ti col = Inr r)"
    using colg g2 info by metis
  from question_stats_loop_result[OF this]
  obtain qs where q: "question_stats_loop df2 ti cols = Inr qs" "map qs_Zadanie qs = cols"
    and rows: "\<forall>j < length cols. \<forall>xs. getitem df2 (cols ! j) = Inr (NumCol xs) \<longrightarrow>
         qs_Pravilnyh_otvetov (qs ! j) = nansum xs \<and>
         qs_Procent_pravilnyh (qs ! j) = percent_of (nansum xs) (frame_len df2) \<and>
         qs_Problemnoe (qs ! j) = problem_flag (qs_Procent_pravilnyh (qs ! j))"
    by blast
  have qne: "qs \<noteq> []" using q(2) cne by auto
  obtain ts where t: "topic_rollup qs = Inr ts" by (simp add: topic_rollup_def qne)
  have res: "analyze_test_results df ti = Inr (df2, qs, ts)"
    unfolding analyze_test_results_def
    by (simp add: Let_def cols_def[symmetric] question_cols_of_def[symmetric] nc
        df1_def[symmetric] getitem_setitem_same df2_def[symmetric] q t)
  have lq: "length qs = length cols" using q(2) by (metis length_map)
  have per: "\<forall>j < length qs. \<exists>xs.
        getitem df (cols ! j) = Inr (NumCol xs) \<and> length xs = frame_len df \<and>
        qs_Procent_pravilnyh (qs ! j)
          = Some (round_dec 1 (real (count_correct xs) / real (frame_len df) * 100)) \<and>
        (qs_Problemnoe (qs ! j) = Da \<longleftrightarrow>
           round_dec 1 (real (count_correct xs) / real (frame_len df) * 100) < 60) \<and>
        (qs_Problemnoe (qs ! j) = Net \<longleftrightarrow>
           60 \<le> round_dec 1 (real (count_correct xs) / real (frame_len df) * 100))"
  proof (intro allI impI)
    fix j assume j: "j < length qs"
    then have jc: "cols ! j \<in> set cols" using lq by simp
    obtain xs where x: "getitem df (cols ! j) = Inr (NumCol xs)" "binary_column xs"
      "length xs = frame_len df"
      using colg[OF jc] by blast
    have "getitem df2 (cols ! j) = Inr (NumCol xs)" using g2[OF jc] x(1) by simp
    then have p: "qs_Procent_pravilnyh (qs ! j) = percent_of (nansum xs) (frame_len df)"
      and f: "qs_Problemnoe (qs ! j) = problem_flag (qs_Procent_pravilnyh (qs ! j))"
      using rows j lq l2 by auto
    have p': "qs_Procent_pravilnyh (qs ! j)
          = Some (round_dec 1 (real (count_correct xs) / real (frame_len df) * 100))"
      using p by (simp add: nansum_binary[OF x(2)] percent_of_pos[OF pos])
    show "\<exists>xs. getitem df (cols ! j) = Inr (NumCol xs) \<and> length xs = frame_len df \<and>
        qs_Procent_pravilnyh (qs ! j)
          = Some (round_dec 1 (real (count_correct xs) / real (frame_len df) * 100)) \<and>
        (qs_Problemnoe (qs ! j) = Da \<longleftrightarrow>
           round_dec 1 (real (count_correct xs) / real (frame_len df) * 100) < 60) \<and>
        (qs_Problemnoe (qs ! j) = Net \<longleftrightarrow>
           60 \<le> round_dec 1 (real (count_correct xs) / real (frame_len df) * 100))"
      using x(1,3) p' f problem_flag_Some by (intro exI[of _ xs]) simp
  qed
  show ?thesis
    using res q(2) per unfolding cols_def by blast
qed

lemma question_cols_results_example:
  "question_cols_of results_example = [''Zadanie_1'', ''Zadanie_2'']"
  by (simp add: question_cols_of_def results_example_def columns_def startswith_def literal_defs)

lemma frame_len_results_example: "frame_len results_example = 5"
  by (simp add: frame_len_def results_example_def)

lemma binary_results_example: "binary_results results_example test_info_example"
  unfolding binary_results_def question_cols_results_example frame_len_results_example
  by (simp add: wf_frame_def results_example_def columns_def frame_len_def startswith_def
      binary_column_def test_info_example_def literal_defs)

lemma getitem_results_example:
  "getitem results_example ''Zadanie_1'' = Inr (NumCol [Some 1, Some 1, Some 1, Some 0, Some 0])"
  "getitem results_example ''Zadanie_2'' = Inr (NumCol [Some 1, Some 0, Some 0, Some 0, Some 0])"
  by (simp_all add: getitem_def results_example_def literal_defs)

lemma round_dec_1_examples: "round_dec (Suc 0) 60 = 60" "round_dec (Suc 0) 20 = 20"
  by (simp_all add: round_dec_def rint_def Let_def)

theorem analyze_test_results_pass_rate_witness:
  "binary_results results_example test_info_example \<and>
   (\<exists>df' qs ts.
      analyze_test_results results_example test_info_example = Inr (df', qs, ts) \<and>
      map qs_Zadanie qs = [''Zadanie_1'', ''Zadanie_2''] \<and>
      qs_Procent_pravilnyh (qs ! 0) = Some 60 \<and> qs_Problemnoe (qs ! 0) = Net \<and>
      qs_Procent_pravilnyh (qs ! 1) = Some 20 \<and> qs_Problemnoe (qs ! 1) = Da)"
proof -
  from analyze_test_results_pass_rate[OF binary_results_example]
  obtain df' qs ts where
    res: "analyze_test_results results_example test_info_example = Inr (df', qs, ts)"
    and names: "map qs_Zadanie qs = [''Zadanie_1'', ''Zadanie_2'']"
    and per: "\<forall>j < length qs. \<exists>xs.
        getitem results_example ([''Zadanie_1'', ''Zadanie_2''] ! j) = Inr (NumCol xs) \<and>
        length xs = frame_len results_example \<and>
        qs_Procent_pravilnyh (qs ! j)
          = Some (round_dec 1 (real (count_correct xs) / real (frame_len results_example) * 100)) \<and>
        (qs_Problemnoe (qs ! j) = Da \<longleftrightarrow>
           round_dec 1 (real (count_correct xs) / real (frame_len results_example) * 100) < 60) \<and>
        (qs_Problemnoe (qs ! j) = Net \<longleftrightarrow>
           60 \<le> round_dec 1 (real (count_correct xs) / real (frame_len results_example) * 100))"
    unfolding question_cols_results_example by (elim exE conjE) (rule that, assumption+)
  have lq: "length qs = 2" using names by (metis length_map length_Cons list.size(3) numeral_2_eq_2)
  obtain xs where x: "getitem results_example ''Zadanie_1'' = Inr (NumCol xs)"
    and p0: "qs_Procent_pravilnyh (qs ! 0)
          = Some (round_dec 1 (real (count_correct xs) / real (frame_len results_example) * 100))"
    and f0: "qs_Problemnoe (qs ! 0) = Net \<longleftrightarrow>
           60 \<le> round_dec 1 (real (count_correct xs) / real (frame_len results_example) * 100)"
    using per[rule_format, of 0] lq by auto
  have xs: "xs = [Some 1, Some 1, Some 1, Some 0, Some 0]"
    using x getitem_results_example(1) by simp
  have r0: "round_dec 1 (real (count_correct xs) / real (frame_len results_example) * 100) = 60"
    by (simp add: xs count_correct_def frame_len_results_example round_dec_1_examples)
  obtain ys where y: "getitem results_example ''Zadanie_2'' = Inr (NumCol ys)"
    and p1: "qs_Procent_pravilnyh (qs ! 1)
          = Some (round_dec 1 (real (count_correct ys) / real (frame_len results_example) * 100))"
    and f1: "qs_Problemnoe (qs ! 1) = Da \<longleftrightarrow>
           round_dec 1 (real (count_correct ys) / real (frame_len results_example) * 100) < 60"
    using per[rule_format, of 1] lq by auto
  have ys: "ys = [Some 1, Some 0, Some 0, Some 0, Some 0]"
    using y getitem_results_example(2) by simp
  have r1: "round_dec 1 (real (count_correct ys) / real (frame_len results_example) * 100) = 20"
    by (simp add: ys count_correct_def frame_len_results_example round_dec_1_examples)
  have "analyze_test_results results_example test_info_example = Inr (df', qs, ts) \<and>
      map qs_Zadanie qs = [''Zadanie_1'', ''Zadanie_2''] \<and>
      qs_Procent_pravilnyh (qs ! 0) = Some 60 \<and> qs_Problemnoe (qs ! 0) = Net \<and>
      qs_Procent_pravilnyh (qs ! 1) = Some 20 \<and> qs_Problemnoe (qs ! 1) = Da"
    using res names p0 f0 p1 f1 unfolding r0 r1 by simp
  then show ?thesis
    using binary_results_example by (intro conjI exI[of _ df'] exI[of _ qs] exI[of _ ts]) simp_all
qed

subsection \<open>Topic rollup\<close>

lemma question_stats_loop_flags:
  "question_stats_loop df ti cols = Inr qs \<Longrightarrow>
   \<forall>q \<in> set qs. qs_Problemnoe q = problem_flag (qs_Procent_pravilnyh q)"
proof (induction cols arbitrary: qs)
  case Nil
  then show ?case by simp
next
  case (Cons col cols)
  then show ?case
    by (auto simp: ebind_def Let_def split: sum.splits column.splits)
qed

lemma analyze_test_results_parts:
  assumes "analyze_test_results df ti = Inr (df', qs, ts)"
  shows "topic_rollup qs = Inr ts"
    and "\<forall>q \<in> set qs. qs_Problemnoe q = problem_flag (qs_Procent_pravilnyh q)"
  using assms
  by (auto simp: analyze_test_results_def Let_def ebind_def
      split: sum.splits dest: question_stats_loop_flags)

lemma problem_flag_iff:
  "problem_flag x = Da \<longleftrightarrow> (\<exists>m. x = Some m \<and> m < 60)"
  "problem_flag x = Net \<longleftrightarrow> \<not> (\<exists>m. x = Some m \<and> m < 60)"
  by (cases x; simp add: problem_flag_def num_lt_def literal_defs)+

text \<open>
  Claim C6. For a non-empty table of question statistics the topic statistics have one
  row per topic. The pass-rate of a topic is the arithmetic mean of the pass-rates of its
  questions, each question counting once, rounded to one decimal (NaN pass-rates are
  skipped). A topic is marked as a problem exactly when its pass-rate is strictly below
  60, the threshold by which \<open>analyze_test_results\<close> marks the questions; the topic
  statistics that \<open>analyze_test_results\<close> returns are this rollup of the question
  statistics it returns.
\<close>

theorem topic_rollup_mean:
  assumes "qs \<noteq> []"
  shows "\<exists>ts. topic_rollup qs = Inr ts \<and>
     map ts_Tema ts = sort (remdups (map qs_Tema qs)) \<and>
     (\<forall>t \<in> set ts.
        ts_Procent_pravilnyh t =
          (let ps = dropna (map qs_Procent_pravilnyh (filter (\<lambda>q. qs_Tema q = ts_Tema t) qs))
           in if ps = [] then None else Some (round_dec 1 (sum_list ps / real (length ps)))) \<and>
        (ts_Problemnaya_tema t = Da \<longleftrightarrow> (\<exists>m. ts_Procent_pravilnyh t = Some m \<and> m < 60)) \<and>
        (ts_Problemnaya_tema t = Net \<longleftrightarrow> \<not> (\<exists>m. ts_Procent_pravilnyh t = Some m \<and> m < 60))) \<and>
     (\<forall>df ti df' ts'. analyze_test_results df ti = Inr (df', qs, ts') \<longrightarrow>
        ts' = ts \<and>
        (\<forall>q \<in> set qs.
           (qs_Problemnoe q = Da \<longleftrightarrow> (\<exists>m. qs_Procent_pravilnyh q = Some m \<and> m < 60)) \<and>
           (qs_Problemnoe q = Net \<longleftrightarrow> \<not> (\<exists>m. qs_Procent_pravilnyh q = Some m \<and> m < 60))))"
proof -
  define mk where "mk = (\<lambda>t.
             let m = num_round 1 (nanmean (map qs_Procent_pravilnyh
                                      (filter (\<lambda>q. qs_Tema q = t) qs)))
             in \<lparr>ts_Tema = t, ts_Procent_pravilnyh = m, ts_Problemnaya_tema = problem_flag m\<rparr>)"
  define ts where "ts = map mk (sort (remdups (map qs_Tema qs)))"
  have r: "topic_rollup qs = Inr ts"
    using assms by (simp add: topic_rollup_def ts_def mk_def)
  have names: "map ts_Tema ts = sort (remdups (map qs_Tema qs))"
    by (simp add: ts_def mk_def comp_def Let_def)
  have each: "ts_Procent_pravilnyh t =
          (let ps = dropna (map qs_Procent_pravilnyh (filter (\<lambda>q. qs_Tema q = ts_Tema t) qs))
           in if ps = [] then None else Some (round_dec 1 (sum_list ps / real (length ps)))) \<and>
        (ts_Problemnaya_tema t = Da \<longleftrightarrow> (\<exists>m. ts_Procent_pravilnyh t = Some m \<and> m < 60)) \<and>
        (ts_Problemnaya_tema t = Net \<longleftrightarrow> \<not> (\<exists>m. ts_Procent_pravilnyh t = Some m \<and> m < 60))"
    if "t \<in> set ts" for t
  proof -
    have "t \<in> mk ` set (sort (remdups (map qs_Tema qs)))"
      using that by (simp only: ts_def set_map)
    then obtain k where t: "t = mk k" by blast
    have f: "ts_Problemnaya_tema t = problem_flag (ts_Procent_pravilnyh t)"
      by (simp add: t mk_def Let_def)
    have "ts_Procent_pravilnyh t =
          (let ps = dropna (map qs_Procent_pravilnyh (filter (\<lambda>q. qs_Tema q = ts_Tema t) qs))
           in if ps = [] then None else Some (round_dec 1 (sum_list ps / real (length ps))))"
      by (simp add: t mk_def Let_def nanmean_def num_round_def)
    then show ?thesis using problem_flag_iff[of "ts_Procent_pravilnyh t"] unfolding f by blast
  qed
  have link: "ts' = ts \<and>
        (\<forall>q \<in> set qs.
           (qs_Problemnoe q = Da \<longleftrightarrow> (\<exists>m. qs_Procent_pravilnyh q = Some m \<and> m < 60)) \<and>
           (qs_Problemnoe q = Net \<longleftrightarrow> \<not> (\<exists>m. qs_Procent_pravilnyh q = Some m \<and> m < 60)))"
    if "analyze_test_results df ti = Inr (df', qs, ts')" for df ti df' ts'
  proof -
    have "ts' = ts" using analyze_test_results_parts(1)[OF that] r by simp
    moreover have "\<forall>q \<in> set qs. qs_Problemnoe q = problem_flag (qs_Procent_pravilnyh q)"
      by (rule analyze_test_results_parts(2)[OF that])
    ultimately show ?thesis using problem_flag_iff by metis
  qed
  show ?thesis using r names each link by blast
qed

lemma topics_qs_example:
  "sort (remdups (map qs_Tema qs_example)) = [''Algebra'', ''Logarifmy'']"
  by (simp add: qs_example_def)

lemma round_dec_1_more: "round_dec (Suc 0) 50 = 50"
  by (simp add: round_dec_def rint_def Let_def)

lemma topic_rollup_qs_example:
  "topic_rollup qs_example =
     Inr [\<lparr>ts_Tema = ''Algebra'', ts_Procent_pravilnyh = Some 50, ts_Problemnaya_tema = Da\<rparr>,
          \<lparr>ts_Tema = ''Logarifmy'', ts_Procent_pravilnyh = Some 60, ts_Problemnaya_tema = Net\<rparr>]"
proof -
  have ne: "qs_example \<noteq> []" by (simp add: qs_example_def)
  have a: "nanmean (map qs_Procent_pravilnyh (filter (\<lambda>q. qs_Tema q = ''Algebra'') qs_example))
             = Some 50"
    and l: "nanmean (map qs_Procent_pravilnyh (filter (\<lambda>q. qs_Tema q = ''Logarifmy'') qs_example))
             = Some 60"
    by (simp_all add: qs_example_def nanmean_def dropna_def)
  have f: "problem_flag (Some 50) = Da" "problem_flag (Some 60) = Net"
    by (simp_all add: problem_flag_def num_lt_def)
  show ?thesis
    unfolding topic_rollup_def topics_qs_example
    using ne by (simp add: a l f num_round_def round_dec_1_examples round_dec_1_more)
qed

theorem topic_rollup_mean_witness:
  "qs_example \<noteq> [] \<and>
   (\<exists>ts. topic_rollup qs_example = Inr ts \<and>
      map ts_Tema ts = [''Algebra'', ''Logarifmy''] \<and>
      ts_Procent_pravilnyh (ts ! 0) = Some 50 \<and> ts_Problemnaya_tema (ts ! 0) = Da \<and>
      ts_Procent_pravilnyh (ts ! 1) = Some 60 \<and> ts_Problemnaya_tema (ts ! 1) = Net)"
proof -
  have ne: "qs_example \<noteq> []" by (simp add: qs_example_def)
  from topic_rollup_mean[OF ne]
  obtain ts where r: "topic_rollup qs_example = Inr ts"
    and n: "map ts_Tema ts = sort (remdups (map qs_Tema qs_example))"
    by (elim exE conjE) (rule that, assumption+)
  have ts: "ts = [\<lparr>ts_Tema = ''Algebra'', ts_Procent_pravilnyh = Some 50, ts_Problemnaya_tema = Da\<rparr>,
          \<lparr>ts_Tema = ''Logarifmy'', ts_Procent_pravilnyh = Some 60, ts_Problemnaya_tema = Net\<rparr>]"
    using r topic_rollup_qs_example by simp
  have "topic_rollup qs_example = Inr ts \<and>
      map ts_Tema ts = [''Algebra'', ''Logarifmy''] \<and>
      ts_Procent_pravilnyh (ts ! 0) = Some 50 \<and> ts_Problemnaya_tema (ts ! 0) = Da \<and>
      ts_Procent_pravilnyh (ts ! 1) = Some 60 \<and> ts_Problemnaya_tema (ts ! 1) = Net"
    using r n unfolding topics_qs_example by (simp add: ts)
  then show ?thesis using ne by (intro conjI exI[of _ ts]) simp_all
qed

end
